theory Spec2Isabelle
  imports Main
begin

section \<open>JavaScript strings\<close>

text \<open>
  \<^verbatim>\<open>s.split(c)\<close> for a one-character separator: the pieces between the separators, so that
  \<^verbatim>\<open>"".split("/")\<close> is \<^verbatim>\<open>[""]\<close> and \<^verbatim>\<open>"/".split("/")\<close> is \<^verbatim>\<open>["", ""]\<close>.
\<close>

fun js_split :: "char \<Rightarrow> string \<Rightarrow> string list" where
  "js_split c [] = [[]]"
| "js_split c (x # xs) =
     (if x = c then [] # js_split c xs
      else (case js_split c xs of [] \<Rightarrow> [[x]] | y # ys \<Rightarrow> (x # y) # ys))"

fun starts_with :: "string \<Rightarrow> string \<Rightarrow> bool" where
  "starts_with s [] = True"
| "starts_with [] (p # ps) = False"
| "starts_with (x # xs) (p # ps) = (x = p \<and> starts_with xs ps)"

text \<open>\<^verbatim>\<open>s.includes(p)\<close>: \<open>p\<close> occurs in \<open>s\<close> as a contiguous substring.\<close>

fun js_includes :: "string \<Rightarrow> string \<Rightarrow> bool" where
  "js_includes [] p = (p = [])"
| "js_includes (x # xs) p = (starts_with (x # xs) p \<or> js_includes xs p)"

text \<open>\<^verbatim>\<open>xs[i]\<close>: \<open>None\<close> stands for \<^verbatim>\<open>undefined\<close>, the value of an index out of range.\<close>

definition at_index :: "'a list \<Rightarrow> nat \<Rightarrow> 'a option" where
  "at_index xs i = (if i < length xs then Some (xs ! i) else None)"

section \<open>Edge Routing Filter (middleware.ts)\<close>

record next_request =
  host :: "string option"
  pathname :: string

text \<open>
  The filter returns \<^verbatim>\<open>NextResponse.next()\<close> with one header set; the model returns the
  headers of that response.
\<close>

definition middleware :: "next_request \<Rightarrow> (string \<times> string) list" where
  "middleware request =
     (let hostname = (case host request of None \<Rightarrow> [] | Some h \<Rightarrow> h);
          tenant =
            (if js_includes hostname ''accesswash.org'' then
               (case js_split CHR ''.'' hostname of [] \<Rightarrow> [] | t # ts \<Rightarrow> t)
             else if js_includes hostname ''localhost'' \<or> js_includes hostname ''127.0.0.1'' then
               (case at_index (js_split CHR ''/'' (pathname request)) 1 of
                  None \<Rightarrow> ''demo''
                | Some seg \<Rightarrow> if seg \<noteq> [] \<and> seg \<noteq> ''api'' then seg else ''demo'')
             else ''demo'')
      in [(''x-tenant'', tenant)])"

definition x_tenant :: "(string \<times> string) list \<Rightarrow> string option" where
  "x_tenant headers = map_of headers ''x-tenant''"

section \<open>Tenant Resolver (useTenant)\<close>

text \<open>
  \<^verbatim>\<open>useParams()\<close> gives each route parameter as a string or, for a catch-all segment, as a
  list of strings. The first argument of \<open>useTenant\<close> is \<^verbatim>\<open>params?.tenant\<close>, \<open>None\<close> when
  there are no parameters or no parameter of that name; the second is \<^verbatim>\<open>usePathname()\<close>.
\<close>

datatype route_param = Single string | Multi "string list"

definition useTenant :: "route_param option \<Rightarrow> string \<Rightarrow> string" where
  "useTenant params_tenant pathname' =
     (case params_tenant of
        Some (Single t) \<Rightarrow>
          if t \<noteq> [] then t
          else (case at_index (js_split CHR ''/'' pathname') 1 of
                  None \<Rightarrow> ''demo'' | Some seg \<Rightarrow> if seg \<noteq> [] then seg else ''demo'')
      | _ \<Rightarrow>
          (case at_index (js_split CHR ''/'' pathname') 1 of
             None \<Rightarrow> ''demo'' | Some seg \<Rightarrow> if seg \<noteq> [] then seg else ''demo''))"

section \<open>JavaScript values\<close>

text \<open>
  The values that travel through the client: response bodies as axios hands them over
  (parsed JSON), the fields read from them, and \<^verbatim>\<open>undefined\<close>, the result of reading a
  field that is not there. Numbers are integers here; no operation of the client computes
  with a number. An object is its list of fields; a field is looked up by its first
  binding (the names of a JavaScript object are distinct).
\<close>

datatype json =
    JUndefined
  | JNull
  | JBool bool
  | JNum int
  | JStr string
  | JArr "json list"
  | JObj "(string \<times> json) list"

text \<open>\<^verbatim>\<open>!!v\<close>: everything is truthy but \<^verbatim>\<open>undefined\<close>, \<^verbatim>\<open>null\<close>, \<^verbatim>\<open>false\<close>, \<^verbatim>\<open>0\<close> and \<^verbatim>\<open>""\<close>.\<close>

fun truthy :: "json \<Rightarrow> bool" where
  "truthy JUndefined = False"
| "truthy JNull = False"
| "truthy (JBool b) = b"
| "truthy (JNum n) = (n \<noteq> 0)"
| "truthy (JStr s) = (s \<noteq> [])"
| "truthy (JArr xs) = True"
| "truthy (JObj kvs) = True"

text \<open>
  \<^verbatim>\<open>v.name\<close>: reading a field of \<^verbatim>\<open>undefined\<close> or \<^verbatim>\<open>null\<close> throws a TypeError (\<open>None\<close>);
  an object gives the field or \<^verbatim>\<open>undefined\<close>; any other value gives \<^verbatim>\<open>undefined\<close> for the
  names the client reads (success, tokens, access_token, customer, data, message, results),
  none of which is a property of a string, number, boolean or array.
\<close>

fun get_prop :: "json \<Rightarrow> string \<Rightarrow> json option" where
  "get_prop JUndefined name = None"
| "get_prop JNull name = None"
| "get_prop (JObj kvs) name = Some (case map_of kvs name of None \<Rightarrow> JUndefined | Some v \<Rightarrow> v)"
| "get_prop v name = Some JUndefined"

text \<open>\<^verbatim>\<open>v?.name\<close>: as \<^verbatim>\<open>v.name\<close>, but \<^verbatim>\<open>undefined\<close> where \<^verbatim>\<open>v.name\<close> would throw.\<close>

definition opt_prop :: "json \<Rightarrow> string \<Rightarrow> json" where
  "opt_prop v name = (case get_prop v name of None \<Rightarrow> JUndefined | Some x \<Rightarrow> x)"

function string_of_nat :: "nat \<Rightarrow> string" where
  "string_of_nat n =
     (if n < 10 then [''0123456789'' ! n]
      else string_of_nat (n div 10) @ [''0123456789'' ! (n mod 10)])"
  by pat_completeness auto
termination
  by (relation "measure (\<lambda>n. n)") auto

definition string_of_int :: "int \<Rightarrow> string" where
  "string_of_int i = (if i < 0 then CHR ''-'' # string_of_nat (nat (- i)) else string_of_nat (nat i))"

fun join :: "string \<Rightarrow> string list \<Rightarrow> string" where
  "join sep [] = []"
| "join sep [x] = x"
| "join sep (x # y # ys) = x @ sep @ join sep (y # ys)"

text \<open>
  \<^verbatim>\<open>String(v)\<close>, the conversion that \<^verbatim>\<open>new Error(v)\<close> and \<^verbatim>\<open>encodeURIComponent(v)\<close> apply
  to a value that is not a string already.
\<close>

fun to_string :: "json \<Rightarrow> string" where
  "to_string JUndefined = ''undefined''"
| "to_string JNull = ''null''"
| "to_string (JBool b) = (if b then ''true'' else ''false'')"
| "to_string (JNum n) = string_of_int n"
| "to_string (JStr s) = s"
| "to_string (JArr xs) =
     join '','' (map (\<lambda>x. if x = JUndefined \<or> x = JNull then [] else to_string x) xs)"
| "to_string (JObj kvs) = ''[object Object]''"

section \<open>The execution context\<close>

text \<open>
  What the client finds around it and cannot change: whether it runs in a browser
  (\<^verbatim>\<open>typeof window !== 'undefined'\<close>), \<^verbatim>\<open>window.location.hostname\<close>,
  \<^verbatim>\<open>process.env.NODE_ENV\<close>, and the two built-in functions of the language that it calls.
  \<open>JSON_parse\<close> gives \<open>None\<close> where \<^verbatim>\<open>JSON.parse\<close> throws a SyntaxError; \<open>JSON_stringify\<close>
  gives \<open>None\<close> where \<^verbatim>\<open>JSON.stringify\<close> returns \<^verbatim>\<open>undefined\<close>. Every theorem below holds
  for whatever these two functions are.
\<close>

record runtime =
  has_window :: bool
  hostname :: string
  node_env :: string
  JSON_parse :: "string \<Rightarrow> json option"
  JSON_stringify :: "json \<Rightarrow> string option"

section \<open>The cookie store (js-cookie)\<close>

record cookie =
  cvalue :: string
  expires :: nat
  secure :: bool
  sameSite :: string

text \<open>
  What the page can observe of the client: each call of the cookie library that reaches
  \<^verbatim>\<open>document.cookie\<close>, and each assignment to \<^verbatim>\<open>window.location.href\<close>.
\<close>

datatype event =
    CookieGet string
  | CookieSet string string
  | CookieRemove string
  | Navigate string

record browser =
  jar :: "string \<Rightarrow> cookie option"
  trace :: "event list"

text \<open>
  The library returns at once where there is no \<^verbatim>\<open>document\<close>; a context has a document
  exactly when it has a window. A cookie is stored under its name and read back with the
  value it was written with.
\<close>

definition Cookies_get :: "runtime \<Rightarrow> string \<Rightarrow> browser \<Rightarrow> string option \<times> browser" where
  "Cookies_get rt name b =
     (if has_window rt then (map_option cvalue (jar b name), b\<lparr>trace := trace b @ [CookieGet name]\<rparr>)
      else (None, b))"

definition Cookies_set :: "runtime \<Rightarrow> string \<Rightarrow> string \<Rightarrow> cookie \<Rightarrow> browser \<Rightarrow> browser" where
  "Cookies_set rt name v attributes b =
     (if has_window rt then
        b\<lparr>jar := (jar b)(name \<mapsto> attributes\<lparr>cvalue := v\<rparr>), trace := trace b @ [CookieSet name v]\<rparr>
      else b)"

definition Cookies_remove :: "runtime \<Rightarrow> string \<Rightarrow> browser \<Rightarrow> browser" where
  "Cookies_remove rt name b =
     (if has_window rt then b\<lparr>jar := (jar b)(name := None), trace := trace b @ [CookieRemove name]\<rparr>
      else b)"

text \<open>The attributes every \<^verbatim>\<open>Cookies.set\<close> of the client passes.\<close>

definition session_attributes :: "runtime \<Rightarrow> cookie" where
  "session_attributes rt =
     \<lparr>cvalue = [], expires = 7, secure = (node_env rt = ''production''), sameSite = ''strict''\<rparr>"

definition navigate :: "string \<Rightarrow> browser \<Rightarrow> browser" where
  "navigate href b = b\<lparr>trace := trace b @ [Navigate href]\<rparr>"

section \<open>The HTTP transport (axios)\<close>

datatype http_method = GET | POST | PUT

record request =
  rmethod :: http_method
  url :: string
  authorization :: "string option"
  payload :: json

text \<open>
  The backend is outside the repository: for a request it either answers with a status
  and a body, or cannot be reached, after some number of milliseconds.
\<close>

datatype wire = Answer nat json | Unreachable

type_synonym backend = "request \<Rightarrow> nat \<times> wire"

text \<open>
  How a request of axios fails: a response whose status is not 2xx (the only failure that
  carries \<^verbatim>\<open>error.response\<close>), the timeout of the instance, or no response at all.
\<close>

datatype axios_error = BadStatus nat json | TimedOut | NetworkDown

record api_client =
  tenant :: string
  baseURL :: string
  timeout :: nat

definition getBaseURL :: "runtime \<Rightarrow> string \<Rightarrow> string" where
  "getBaseURL rt tenant' =
     (if has_window rt then
        (if js_includes (hostname rt) ''localhost'' \<or> js_includes (hostname rt) ''127.0.0.1''
         then ''http://'' @ tenant' @ ''.accesswash.org:8000/api''
         else ''https://'' @ tenant' @ ''.accesswash.org/api'')
      else
        (if node_env rt = ''development''
         then ''http://'' @ tenant' @ ''.accesswash.org:8000/api''
         else ''https://'' @ tenant' @ ''.accesswash.org/api''))"

definition createApiClient :: "runtime \<Rightarrow> string \<Rightarrow> api_client" where
  "createApiClient rt tenant' =
     \<lparr>tenant = tenant', baseURL = getBaseURL rt tenant', timeout = 10000\<rparr>"

definition axios_send :: "api_client \<Rightarrow> backend \<Rightarrow> request \<Rightarrow> axios_error + json" where
  "axios_send api server config =
     (case server config of
        (elapsed, w) \<Rightarrow>
          if timeout api < elapsed then Inl TimedOut
          else (case w of
                  Unreachable \<Rightarrow> Inl NetworkDown
                | Answer status body \<Rightarrow>
                    if 200 \<le> status \<and> status < 300 then Inr body else Inl (BadStatus status body)))"

section \<open>API Client (lib/utils/api-client.ts)\<close>

definition token_key :: "string \<Rightarrow> string" where
  "token_key tenant' = ''accesswash_token_'' @ tenant'"

definition customer_key :: "string \<Rightarrow> string" where
  "customer_key tenant' = ''accesswash_customer_'' @ tenant'"

definition login_page :: "string \<Rightarrow> string" where
  "login_page tenant' = ''/'' @ tenant' @ ''/portal/auth/login''"

definition getAuthToken :: "runtime \<Rightarrow> api_client \<Rightarrow> browser \<Rightarrow> string option \<times> browser" where
  "getAuthToken rt api b =
     (if \<not> has_window rt then (None, b) else Cookies_get rt (token_key (tenant api)) b)"

definition setAuthToken :: "runtime \<Rightarrow> api_client \<Rightarrow> string \<Rightarrow> browser \<Rightarrow> browser" where
  "setAuthToken rt api token b =
     (if \<not> has_window rt then b
      else Cookies_set rt (token_key (tenant api)) token (session_attributes rt) b)"

definition clearAuthData :: "runtime \<Rightarrow> api_client \<Rightarrow> browser \<Rightarrow> browser" where
  "clearAuthData rt api b =
     (if \<not> has_window rt then b
      else Cookies_remove rt (customer_key (tenant api)) (Cookies_remove rt (token_key (tenant api)) b))"

text \<open>The request interceptor: \<^verbatim>\<open>if (token)\<close> holds for a token that is there and not empty.\<close>

definition request_interceptor ::
    "runtime \<Rightarrow> api_client \<Rightarrow> request \<Rightarrow> browser \<Rightarrow> request \<times> browser" where
  "request_interceptor rt api config b =
     (case getAuthToken rt api b of
        (token, b1) \<Rightarrow>
          ((case token of
              None \<Rightarrow> config
            | Some t \<Rightarrow> if t \<noteq> [] then config\<lparr>authorization := Some (''Bearer '' @ t)\<rparr> else config),
           b1))"

text \<open>\<^verbatim>\<open>error.response?.status\<close>\<close>

fun response_status :: "axios_error \<Rightarrow> nat option" where
  "response_status (BadStatus status body) = Some status"
| "response_status TimedOut = None"
| "response_status NetworkDown = None"

text \<open>
  The error handler of the response interceptor; the error itself is rejected again by
  the caller of this function.
\<close>

definition response_interceptor :: "runtime \<Rightarrow> api_client \<Rightarrow> axios_error \<Rightarrow> browser \<Rightarrow> browser" where
  "response_interceptor rt api err b =
     (if response_status err = Some 401 then
        (let b1 = clearAuthData rt api b
         in if has_window rt then navigate (login_page (tenant api)) b1 else b1)
      else b)"

text \<open>
  One call of \<^verbatim>\<open>this.client.get/post/put\<close>: the request interceptor, the transport, and on
  a rejection the response interceptor. A fulfilled call gives \<^verbatim>\<open>response.data\<close>.
\<close>

definition client_request ::
    "runtime \<Rightarrow> api_client \<Rightarrow> backend \<Rightarrow> http_method \<Rightarrow> string \<Rightarrow> json \<Rightarrow> browser
      \<Rightarrow> (axios_error + json) \<times> browser" where
  "client_request rt api server m path body b =
     (case request_interceptor rt api
             \<lparr>rmethod = m, url = baseURL api @ path, authorization = None, payload = body\<rparr> b of
        (config, b1) \<Rightarrow>
          (case axios_send api server config of
             Inr data \<Rightarrow> (Inr data, b1)
           | Inl err \<Rightarrow> (Inl err, response_interceptor rt api err b1)))"

text \<open>
  What a method of the client or an action of the store can throw or catch. A TypeError
  records the field whose read threw.
\<close>

datatype thrown = Transport axios_error | TypeError string | Error string

text \<open>\<^verbatim>\<open>error.response?.data?.message\<close>\<close>

fun backend_message :: "thrown \<Rightarrow> json" where
  "backend_message (Transport (BadStatus status body)) = opt_prop body ''message''"
| "backend_message e = JUndefined"

text \<open>\<^verbatim>\<open>new Error(error.response?.data?.message || fallback)\<close>\<close>

definition normalized :: "thrown \<Rightarrow> string \<Rightarrow> thrown" where
  "normalized e fallback =
     Error (if truthy (backend_message e) then to_string (backend_message e) else fallback)"

text \<open>\<^verbatim>\<open>try { ... } catch (error) { throw new Error(...) }\<close> around the body of a method.\<close>

definition caught :: "string \<Rightarrow> (thrown + json) \<times> browser \<Rightarrow> (thrown + json) \<times> browser" where
  "caught fallback r =
     (case r of (Inl e, b) \<Rightarrow> (Inl (normalized e fallback), b) | (Inr v, b) \<Rightarrow> (Inr v, b))"

text \<open>\<^verbatim>\<open>const response = await this.client...; return response.data\<close>\<close>

definition returned_data :: "(axios_error + json) \<times> browser \<Rightarrow> (thrown + json) \<times> browser" where
  "returned_data r =
     (case r of (Inl err, b) \<Rightarrow> (Inl (Transport err), b) | (Inr data, b) \<Rightarrow> (Inr data, b))"

text \<open>
  The value \<^verbatim>\<open>Cookies.set\<close> stores for \<^verbatim>\<open>JSON.stringify(v)\<close>: the library converts what it
  is given to a string, so \<^verbatim>\<open>undefined\<close> is stored as the text \<^verbatim>\<open>undefined\<close>.
\<close>

definition stringified :: "runtime \<Rightarrow> json \<Rightarrow> string" where
  "stringified rt v = (case JSON_stringify rt v of None \<Rightarrow> ''undefined'' | Some s \<Rightarrow> s)"

text \<open>
  \<open>login\<close> and \<open>register\<close>: once \<^verbatim>\<open>response.data.success\<close> has been read without a
  TypeError the body is neither \<^verbatim>\<open>undefined\<close> nor \<^verbatim>\<open>null\<close>, and a truthy
  \<^verbatim>\<open>response.data.tokens\<close> is neither; the reads after it cannot throw and are written
  with \<open>opt_prop\<close>.
\<close>

definition persist_session :: "runtime \<Rightarrow> api_client \<Rightarrow> json \<Rightarrow> browser \<Rightarrow> (thrown + json) \<times> browser" where
  "persist_session rt api data b =
     (case get_prop data ''success'' of
        None \<Rightarrow> (Inl (TypeError ''success''), b)
      | Some success \<Rightarrow>
          if truthy success \<and> truthy (opt_prop data ''tokens'') then
            (let b1 = setAuthToken rt api
                        (to_string (opt_prop (opt_prop data ''tokens'') ''access_token'')) b;
                 b2 = Cookies_set rt (customer_key (tenant api))
                        (stringified rt (opt_prop data ''customer'')) (session_attributes rt) b1
             in (Inr data, b2))
          else (Inr data, b))"

definition login :: "runtime \<Rightarrow> api_client \<Rightarrow> backend \<Rightarrow> json \<Rightarrow> browser \<Rightarrow> (thrown + json) \<times> browser" where
  "login rt api server credentials b =
     caught ''Login failed''
       (case client_request rt api server POST ''/portal/auth/login/'' credentials b of
          (Inl err, b1) \<Rightarrow> (Inl (Transport err), b1)
        | (Inr data, b1) \<Rightarrow> persist_session rt api data b1)"

definition register :: "runtime \<Rightarrow> api_client \<Rightarrow> backend \<Rightarrow> json \<Rightarrow> browser \<Rightarrow> (thrown + json) \<times> browser" where
  "register rt api server data' b =
     caught ''Registration failed''
       (case client_request rt api server POST ''/portal/auth/register/'' data' b of
          (Inl err, b1) \<Rightarrow> (Inl (Transport err), b1)
        | (Inr data, b1) \<Rightarrow> persist_session rt api data b1)"

text \<open>\<^verbatim>\<open>try { await post } catch { } finally { this.clearAuthData() }\<close>\<close>

definition logout :: "runtime \<Rightarrow> api_client \<Rightarrow> backend \<Rightarrow> browser \<Rightarrow> (thrown + json) \<times> browser" where
  "logout rt api server b =
     (case client_request rt api server POST ''/portal/auth/logout/'' JUndefined b of
        (Inl err, b1) \<Rightarrow> (Inr JUndefined, clearAuthData rt api b1)
      | (Inr data, b1) \<Rightarrow> (Inr JUndefined, clearAuthData rt api b1))"

definition forgotPassword :: "runtime \<Rightarrow> api_client \<Rightarrow> backend \<Rightarrow> string \<Rightarrow> browser \<Rightarrow> (thrown + json) \<times> browser" where
  "forgotPassword rt api server email b =
     caught ''Failed to send reset email''
       (returned_data (client_request rt api server POST ''/portal/auth/forgot-password/''
          (JObj [(''email'', JStr email)]) b))"

definition getDashboard :: "runtime \<Rightarrow> api_client \<Rightarrow> backend \<Rightarrow> browser \<Rightarrow> (thrown + json) \<times> browser" where
  "getDashboard rt api server b =
     caught ''Failed to load dashboard''
       (returned_data (client_request rt api server GET ''/portal/dashboard/'' JUndefined b))"

definition getProfile :: "runtime \<Rightarrow> api_client \<Rightarrow> backend \<Rightarrow> browser \<Rightarrow> (thrown + json) \<times> browser" where
  "getProfile rt api server b =
     caught ''Failed to load profile''
       (returned_data (client_request rt api server GET ''/portal/profile/'' JUndefined b))"

definition updateProfile :: "runtime \<Rightarrow> api_client \<Rightarrow> backend \<Rightarrow> json \<Rightarrow> browser \<Rightarrow> (thrown + json) \<times> browser" where
  "updateProfile rt api server data' b =
     caught ''Failed to update profile''
       (case client_request rt api server PUT ''/portal/profile/'' data' b of
          (Inl err, b1) \<Rightarrow> (Inl (Transport err), b1)
        | (Inr data, b1) \<Rightarrow>
            (case get_prop data ''success'' of
               None \<Rightarrow> (Inl (TypeError ''success''), b1)
             | Some success \<Rightarrow>
                 if truthy success then
                   (Inr data,
                    Cookies_set rt (customer_key (tenant api))
                      (stringified rt (opt_prop data ''data'')) (session_attributes rt) b1)
                 else (Inr data, b1)))"

definition getServiceRequests :: "runtime \<Rightarrow> api_client \<Rightarrow> backend \<Rightarrow> browser \<Rightarrow> (thrown + json) \<times> browser" where
  "getServiceRequests rt api server b =
     caught ''Failed to load service requests''
       (case client_request rt api server GET ''/support/requests/'' JUndefined b of
          (Inl err, b1) \<Rightarrow> (Inl (Transport err), b1)
        | (Inr data, b1) \<Rightarrow>
            (case get_prop data ''results'' of
               None \<Rightarrow> (Inl (TypeError ''results''), b1)
             | Some results \<Rightarrow> (Inr (if truthy results then results else data), b1)))"

definition getServiceRequest :: "runtime \<Rightarrow> api_client \<Rightarrow> backend \<Rightarrow> string \<Rightarrow> browser \<Rightarrow> (thrown + json) \<times> browser" where
  "getServiceRequest rt api server id' b =
     caught ''Failed to load service request''
       (returned_data (client_request rt api server GET (''/support/requests/'' @ id' @ ''/'') JUndefined b))"

definition createServiceRequest :: "runtime \<Rightarrow> api_client \<Rightarrow> backend \<Rightarrow> json \<Rightarrow> browser \<Rightarrow> (thrown + json) \<times> browser" where
  "createServiceRequest rt api server data' b =
     caught ''Failed to create service request''
       (returned_data (client_request rt api server POST ''/support/requests/'' data' b))"

definition addComment :: "runtime \<Rightarrow> api_client \<Rightarrow> backend \<Rightarrow> string \<Rightarrow> string \<Rightarrow> browser \<Rightarrow> (thrown + json) \<times> browser" where
  "addComment rt api server requestId comment b =
     caught ''Failed to add comment''
       (returned_data (client_request rt api server POST
          (''/support/requests/'' @ requestId @ ''/comments/'') (JObj [(''comment'', JStr comment)]) b))"

definition getCurrentCustomer :: "runtime \<Rightarrow> api_client \<Rightarrow> browser \<Rightarrow> json \<times> browser" where
  "getCurrentCustomer rt api b =
     (if \<not> has_window rt then (JNull, b)
      else (case Cookies_get rt (customer_key (tenant api)) b of
              (customerData, b1) \<Rightarrow>
                (case customerData of
                   None \<Rightarrow> (JNull, b1)
                 | Some text' \<Rightarrow>
                     if text' = [] then (JNull, b1)
                     else (case JSON_parse rt text' of
                             None \<Rightarrow> (JNull, b1)
                           | Some v \<Rightarrow> (v, b1)))))"

text \<open>
  \<^verbatim>\<open>!!this.getAuthToken() && !!this.getCurrentCustomer()\<close>: the customer is not read when
  there is no token.
\<close>

definition isAuthenticated :: "runtime \<Rightarrow> api_client \<Rightarrow> browser \<Rightarrow> bool \<times> browser" where
  "isAuthenticated rt api b =
     (case getAuthToken rt api b of
        (token, b1) \<Rightarrow>
          if token \<noteq> None \<and> token \<noteq> Some [] then
            (case getCurrentCustomer rt api b1 of (c, b2) \<Rightarrow> (truthy c, b2))
          else (False, b1))"

text \<open>
  The methods of one client, as one table: the public operations, and the three private
  helpers that touch the cookies. A method without a result gives \<^verbatim>\<open>undefined\<close>.
\<close>

datatype call =
    Login json
  | Register json
  | Logout
  | ForgotPassword string
  | GetDashboard
  | GetProfile
  | UpdateProfile json
  | GetServiceRequests
  | GetServiceRequest string
  | CreateServiceRequest json
  | AddComment string string
  | GetCurrentCustomer
  | IsAuthenticated
  | GetAuthToken
  | SetAuthToken string
  | ClearAuthData

fun invoke :: "runtime \<Rightarrow> api_client \<Rightarrow> backend \<Rightarrow> call \<Rightarrow> browser \<Rightarrow> (thrown + json) \<times> browser" where
  "invoke rt api server (Login credentials) b = login rt api server credentials b"
| "invoke rt api server (Register data') b = register rt api server data' b"
| "invoke rt api server Logout b = logout rt api server b"
| "invoke rt api server (ForgotPassword email) b = forgotPassword rt api server email b"
| "invoke rt api server GetDashboard b = getDashboard rt api server b"
| "invoke rt api server GetProfile b = getProfile rt api server b"
| "invoke rt api server (UpdateProfile data') b = updateProfile rt api server data' b"
| "invoke rt api server GetServiceRequests b = getServiceRequests rt api server b"
| "invoke rt api server (GetServiceRequest id') b = getServiceRequest rt api server id' b"
| "invoke rt api server (CreateServiceRequest data') b = createServiceRequest rt api server data' b"
| "invoke rt api server (AddComment requestId comment) b = addComment rt api server requestId comment b"
| "invoke rt api server GetCurrentCustomer b =
     (case getCurrentCustomer rt api b of (c, b1) \<Rightarrow> (Inr c, b1))"
| "invoke rt api server IsAuthenticated b =
     (case isAuthenticated rt api b of (a, b1) \<Rightarrow> (Inr (JBool a), b1))"
| "invoke rt api server GetAuthToken b =
     (case getAuthToken rt api b of
        (None, b1) \<Rightarrow> (Inr JUndefined, b1)
      | (Some t, b1) \<Rightarrow> (Inr (JStr t), b1))"
| "invoke rt api server (SetAuthToken token) b = (Inr JUndefined, setAuthToken rt api token b)"
| "invoke rt api server ClearAuthData b = (Inr JUndefined, clearAuthData rt api b)"

text \<open>
  The ten operations that throw a normalized error, each with the fallback message of its
  \<^verbatim>\<open>catch\<close> clause.
\<close>

fun fallback_message :: "call \<Rightarrow> string option" where
  "fallback_message (Login credentials) = Some ''Login failed''"
| "fallback_message (Register data') = Some ''Registration failed''"
| "fallback_message (ForgotPassword email) = Some ''Failed to send reset email''"
| "fallback_message GetDashboard = Some ''Failed to load dashboard''"
| "fallback_message GetProfile = Some ''Failed to load profile''"
| "fallback_message (UpdateProfile data') = Some ''Failed to update profile''"
| "fallback_message GetServiceRequests = Some ''Failed to load service requests''"
| "fallback_message (GetServiceRequest id') = Some ''Failed to load service request''"
| "fallback_message (CreateServiceRequest data') = Some ''Failed to create service request''"
| "fallback_message (AddComment requestId comment) = Some ''Failed to add comment''"
| "fallback_message c = None"

text \<open>The request each of the eleven network operations sends.\<close>

fun request_of :: "api_client \<Rightarrow> call \<Rightarrow> request option" where
  "request_of api (Login credentials) =
     Some \<lparr>rmethod = POST, url = baseURL api @ ''/portal/auth/login/'', authorization = None, payload = credentials\<rparr>"
| "request_of api (Register data') =
     Some \<lparr>rmethod = POST, url = baseURL api @ ''/portal/auth/register/'', authorization = None, payload = data'\<rparr>"
| "request_of api Logout =
     Some \<lparr>rmethod = POST, url = baseURL api @ ''/portal/auth/logout/'', authorization = None, payload = JUndefined\<rparr>"
| "request_of api (ForgotPassword email) =
     Some \<lparr>rmethod = POST, url = baseURL api @ ''/portal/auth/forgot-password/'', authorization = None,
           payload = JObj [(''email'', JStr email)]\<rparr>"
| "request_of api GetDashboard =
     Some \<lparr>rmethod = GET, url = baseURL api @ ''/portal/dashboard/'', authorization = None, payload = JUndefined\<rparr>"
| "request_of api GetProfile =
     Some \<lparr>rmethod = GET, url = baseURL api @ ''/portal/profile/'', authorization = None, payload = JUndefined\<rparr>"
| "request_of api (UpdateProfile data') =
     Some \<lparr>rmethod = PUT, url = baseURL api @ ''/portal/profile/'', authorization = None, payload = data'\<rparr>"
| "request_of api GetServiceRequests =
     Some \<lparr>rmethod = GET, url = baseURL api @ ''/support/requests/'', authorization = None, payload = JUndefined\<rparr>"
| "request_of api (GetServiceRequest id') =
     Some \<lparr>rmethod = GET, url = baseURL api @ (''/support/requests/'' @ id' @ ''/''), authorization = None,
           payload = JUndefined\<rparr>"
| "request_of api (CreateServiceRequest data') =
     Some \<lparr>rmethod = POST, url = baseURL api @ ''/support/requests/'', authorization = None, payload = data'\<rparr>"
| "request_of api (AddComment requestId comment) =
     Some \<lparr>rmethod = POST, url = baseURL api @ (''/support/requests/'' @ requestId @ ''/comments/''),
           authorization = None, payload = JObj [(''comment'', JStr comment)]\<rparr>"
| "request_of api c = None"

text \<open>The request as it leaves the request interceptor, the token attached.\<close>

definition sent_request :: "runtime \<Rightarrow> api_client \<Rightarrow> call \<Rightarrow> browser \<Rightarrow> request option" where
  "sent_request rt api c b =
     map_option (\<lambda>config. fst (request_interceptor rt api config b)) (request_of api c)"

text \<open>What the transport makes of the backend's answer to it.\<close>

definition outcome :: "runtime \<Rightarrow> api_client \<Rightarrow> backend \<Rightarrow> call \<Rightarrow> browser \<Rightarrow> (axios_error + json) option" where
  "outcome rt api server c b = map_option (axios_send api server) (sent_request rt api c b)"

text \<open>The events an operation adds to the trace of the page.\<close>

definition new_events :: "browser \<Rightarrow> browser \<Rightarrow> event list" where
  "new_events b b' = drop (length (trace b)) (trace b')"

fun cookie_name :: "event \<Rightarrow> string option" where
  "cookie_name (CookieGet name) = Some name"
| "cookie_name (CookieSet name v) = Some name"
| "cookie_name (CookieRemove name) = Some name"
| "cookie_name (Navigate href) = None"

section \<open>Auth Session Store (lib/stores/auth-store.ts)\<close>

record auth_state =
  customer :: json
  loading :: bool
  error :: "string option"
  isAuthenticated' :: bool

definition initial_state :: auth_state where
  "initial_state = \<lparr>customer = JNull, loading = False, error = None, isAuthenticated' = False\<rparr>"

text \<open>
  \<^verbatim>\<open>error.message\<close>. The texts of a TypeError and of the errors of axios are those of the
  engine and of the library; the client never lets an error of axios reach the store.
\<close>

fun message_of :: "thrown \<Rightarrow> string" where
  "message_of (Error m) = m"
| "message_of (TypeError name) = ''Cannot read properties of undefined (reading '' @ name @ '')''"
| "message_of (Transport (BadStatus status body)) = ''Request failed with status code '' @ string_of_nat status"
| "message_of (Transport TimedOut) = ''timeout of 10000ms exceeded''"
| "message_of (Transport NetworkDown) = ''Network Error''"

text \<open>\<^verbatim>\<open>set({ loading: true, error: null })\<close>, the first statement of login, register and forgotPassword.\<close>

definition begin_action :: "auth_state \<Rightarrow> auth_state" where
  "begin_action s = s\<lparr>loading := True, error := None\<rparr>"

text \<open>The \<^verbatim>\<open>catch\<close> clause of login and register; the error is thrown again.\<close>

definition session_failed :: "thrown \<Rightarrow> auth_state \<Rightarrow> browser \<Rightarrow> thrown option \<times> auth_state \<times> browser" where
  "session_failed e s b =
     (Some e, s\<lparr>error := Some (message_of e), loading := False, isAuthenticated' := False, customer := JNull\<rparr>, b)"

text \<open>
  The part of login and register after \<^verbatim>\<open>await api.login(...)\<close>: \<open>r\<close> is what the client
  returned or threw, \<open>fallback\<close> the message of the \<^verbatim>\<open>else\<close> branch.
\<close>

definition session_settled ::
    "string \<Rightarrow> auth_state \<Rightarrow> (thrown + json) \<times> browser \<Rightarrow> thrown option \<times> auth_state \<times> browser" where
  "session_settled fallback s r =
     (case r of
        (Inl e, b) \<Rightarrow> session_failed e s b
      | (Inr response, b) \<Rightarrow>
          (case get_prop response ''success'' of
             None \<Rightarrow> session_failed (TypeError ''success'') s b
           | Some success \<Rightarrow>
               if truthy success then
                 (case get_prop response ''data'' of
                    None \<Rightarrow> session_failed (TypeError ''data'') s b
                  | Some data \<Rightarrow>
                      (case get_prop data ''customer'' of
                         None \<Rightarrow> session_failed (TypeError ''customer'') s b
                       | Some c \<Rightarrow>
                           (None, s\<lparr>customer := c, isAuthenticated' := True, loading := False\<rparr>, b)))
               else
                 session_failed
                   (Error (if truthy (opt_prop response ''message'')
                           then to_string (opt_prop response ''message'') else fallback)) s b))"

definition store_login ::
    "runtime \<Rightarrow> backend \<Rightarrow> json \<Rightarrow> string \<Rightarrow> auth_state \<Rightarrow> browser \<Rightarrow> thrown option \<times> auth_state \<times> browser" where
  "store_login rt server credentials tenant' s b =
     session_settled ''Login failed'' (begin_action s)
       (login rt (createApiClient rt tenant') server credentials b)"

definition store_register ::
    "runtime \<Rightarrow> backend \<Rightarrow> json \<Rightarrow> string \<Rightarrow> auth_state \<Rightarrow> browser \<Rightarrow> thrown option \<times> auth_state \<times> browser" where
  "store_register rt server data' tenant' s b =
     session_settled ''Registration failed'' (begin_action s)
       (register rt (createApiClient rt tenant') server data' b)"

text \<open>
  \<^verbatim>\<open>set({ loading: true })\<close>, then the call of the client inside \<^verbatim>\<open>try\<close> with an empty
  \<^verbatim>\<open>catch\<close>, then the \<^verbatim>\<open>finally\<close> clause.
\<close>

definition store_logout ::
    "runtime \<Rightarrow> backend \<Rightarrow> string \<Rightarrow> auth_state \<Rightarrow> browser \<Rightarrow> thrown option \<times> auth_state \<times> browser" where
  "store_logout rt server tenant' s b =
     (case logout rt (createApiClient rt tenant') server b of
        (r, b1) \<Rightarrow>
          (None,
           (s\<lparr>loading := True\<rparr>)\<lparr>customer := JNull, isAuthenticated' := False, loading := False, error := None\<rparr>,
           b1))"

definition store_forgotPassword ::
    "runtime \<Rightarrow> backend \<Rightarrow> string \<Rightarrow> string \<Rightarrow> auth_state \<Rightarrow> browser \<Rightarrow> thrown option \<times> auth_state \<times> browser" where
  "store_forgotPassword rt server email tenant' s b =
     (case forgotPassword rt (createApiClient rt tenant') server email b of
        (Inl e, b1) \<Rightarrow> (Some e, (begin_action s)\<lparr>error := Some (message_of e), loading := False\<rparr>, b1)
      | (Inr response, b1) \<Rightarrow> (None, (begin_action s)\<lparr>loading := False\<rparr>, b1))"

definition loadCustomerFromStorage :: "runtime \<Rightarrow> string \<Rightarrow> auth_state \<Rightarrow> browser \<Rightarrow> auth_state \<times> browser" where
  "loadCustomerFromStorage rt tenant' s b =
     (case getCurrentCustomer rt (createApiClient rt tenant') b of
        (c, b1) \<Rightarrow>
          (case isAuthenticated rt (createApiClient rt tenant') b1 of
             (a, b2) \<Rightarrow> (s\<lparr>customer := c, isAuthenticated' := a, loading := False\<rparr>, b2)))"

definition clearError :: "auth_state \<Rightarrow> auth_state" where
  "clearError s = s\<lparr>error := None\<rparr>"

section \<open>Auxiliary notions\<close>

text \<open>The same page with one cookie replaced by another, or taken away.\<close>

definition overwrite :: "string \<Rightarrow> cookie option \<Rightarrow> browser \<Rightarrow> browser" where
  "overwrite k x b = b\<lparr>jar := (jar b)(k := x)\<rparr>"

text \<open>
  \<open>within T b b'\<close>: from \<open>b\<close> to \<open>b'\<close> the trace has only grown, by events that name no
  cookie but the two of tenant \<open>T\<close>, and no other cookie has changed.
\<close>

definition within :: "string \<Rightarrow> browser \<Rightarrow> browser \<Rightarrow> bool" where
  "within T b b' \<longleftrightarrow>
     (\<exists>evs. trace b' = trace b @ evs \<and>
        (\<forall>e\<in>set evs. cookie_name e = None \<or> cookie_name e = Some (token_key T)
                        \<or> cookie_name e = Some (customer_key T)))
     \<and> (\<forall>k. k \<noteq> token_key T \<and> k \<noteq> customer_key T \<longrightarrow> jar b' k = jar b k)"

section \<open>Example data\<close>

text \<open>
  A serializer in the compact form \<^verbatim>\<open>JSON.stringify\<close> writes (a field whose value is
  \<^verbatim>\<open>undefined\<close> is left out, an \<^verbatim>\<open>undefined\<close> element is written \<^verbatim>\<open>null\<close>), for the
  examples below. Their parser knows the two texts that occur in them.
\<close>

definition quoted :: "string \<Rightarrow> string" where
  "quoted s =
     CHR 0x22 #
     concat (map (\<lambda>c. if c = CHR 0x22 \<or> c = CHR 0x5C then [CHR 0x5C, c] else [c]) s) @ [CHR 0x22]"

fun serialize :: "json \<Rightarrow> string"
  and serialize_items :: "json list \<Rightarrow> string list"
  and serialize_fields :: "(string \<times> json) list \<Rightarrow> string list" where
  "serialize JUndefined = ''null''"
| "serialize JNull = ''null''"
| "serialize (JBool b) = (if b then ''true'' else ''false'')"
| "serialize (JNum n) = string_of_int n"
| "serialize (JStr s) = quoted s"
| "serialize (JArr xs) = ''['' @ join '','' (serialize_items xs) @ '']''"
| "serialize (JObj kvs) = ''{'' @ join '','' (serialize_fields kvs) @ ''}''"
| "serialize_items [] = []"
| "serialize_items (x # xs) = serialize x # serialize_items xs"
| "serialize_fields [] = []"
| "serialize_fields ((k, v) # kvs) =
     (if v = JUndefined then serialize_fields kvs
      else (quoted k @ '':'' @ serialize v) # serialize_fields kvs)"

definition example_customer :: json where
  "example_customer =
     JObj [(''id'', JStr ''c1''), (''email'', JStr ''asha@example.org''), (''email_verified'', JBool True)]"

definition example_stringify :: "json \<Rightarrow> string option" where
  "example_stringify v = (if v = JUndefined then None else Some (serialize v))"

definition example_parse :: "string \<Rightarrow> json option" where
  "example_parse text' =
     (if text' = serialize example_customer then Some example_customer
      else if text' = ''null'' then Some JNull
      else None)"

definition in_browser :: runtime where
  "in_browser =
     \<lparr>has_window = True, hostname = ''localhost'', node_env = ''development'',
      JSON_parse = example_parse, JSON_stringify = example_stringify\<rparr>"

definition on_server :: runtime where
  "on_server =
     \<lparr>has_window = False, hostname = [], node_env = ''production'',
      JSON_parse = example_parse, JSON_stringify = example_stringify\<rparr>"

definition fresh_page :: browser where
  "fresh_page = \<lparr>jar = Map.empty, trace = []\<rparr>"

text \<open>A page that holds a session of the tenant: a token and the example customer.\<close>

definition session_page :: "string \<Rightarrow> browser" where
  "session_page T =
     \<lparr>jar = [token_key T \<mapsto> (session_attributes in_browser)\<lparr>cvalue := ''tok-1''\<rparr>,
             customer_key T \<mapsto> (session_attributes in_browser)\<lparr>cvalue := serialize example_customer\<rparr>],
      trace = []\<rparr>"

text \<open>A backend that answers every request alike after 120 ms, and one that never answers in time.\<close>

definition answering :: "nat \<Rightarrow> json \<Rightarrow> backend" where
  "answering status body config = (120, Answer status body)"

definition stalled :: backend where
  "stalled config = (10001, Answer 200 JNull)"

text \<open>
  A successful reply to login in the envelope the client declares as its result type,
  \<^verbatim>\<open>ApiResponse<{ customer: Customer; tokens: any }>\<close>, and one with the customer and the
  tokens beside \<^verbatim>\<open>success\<close>.
\<close>

definition enveloped_reply :: json where
  "enveloped_reply =
     JObj [(''success'', JBool True),
           (''data'', JObj [(''customer'', example_customer),
                            (''tokens'', JObj [(''access_token'', JStr ''tok-1'')])])]"

definition flat_reply :: json where
  "flat_reply =
     JObj [(''success'', JBool True),
           (''customer'', example_customer),
           (''tokens'', JObj [(''access_token'', JStr ''tok-1'')])]"

definition example_credentials :: json where
  "example_credentials = JObj [(''username'', JStr ''asha@example.org''), (''password'', JStr ''secret'')]"

text \<open>The same page with the token cookie present and empty.\<close>

definition empty_token_page :: "string \<Rightarrow> browser" where
  "empty_token_page T = overwrite (token_key T) (Some (session_attributes in_browser)) (session_page T)"

text \<open>The state of the store with the example customer signed in.\<close>

definition authenticated_state :: auth_state where
  "authenticated_state =
     \<lparr>customer = example_customer, loading = False, error = None, isAuthenticated' = True\<rparr>"

text \<open>A successful reply to updateProfile, in the documented envelope.\<close>

definition updated_customer :: json where
  "updated_customer = JObj [(''id'', JStr ''c1''), (''first_name'', JStr ''Asha'')]"

definition profile_reply :: json where
  "profile_reply = JObj [(''success'', JBool True), (''data'', updated_customer)]"

section \<open>Splitting strings\<close>

lemma js_split_nonempty: "js_split c s \<noteq> []"
  by (induction s) (auto split: list.splits)

lemma js_split_no_sep: "c \<notin> set s \<Longrightarrow> js_split c s = [s]"
  by (induction s) (auto split: list.splits)

lemma js_split_at_sep: "c \<notin> set s \<Longrightarrow> js_split c (s @ c # r) = s # js_split c r"
  by (induction s) (auto split: list.splits)

section \<open>Every method of a client stays within the cookies of its tenant\<close>

lemma within_refl [simp]: "within T b b"
  by (simp add: within_def)

lemma within_trans: "within T b b1 \<Longrightarrow> within T b1 b2 \<Longrightarrow> within T b b2"
  unfolding within_def by (elim conjE exE) (rule conjI, rule_tac x="evs @ evsa" in exI, auto)

lemma within_get_token: "within T b (snd (Cookies_get rt (token_key T) b))"
  by (simp add: within_def Cookies_get_def)

lemma within_get_customer: "within T b (snd (Cookies_get rt (customer_key T) b))"
  by (simp add: within_def Cookies_get_def)

lemma within_set_token: "within T b (Cookies_set rt (token_key T) v a b)"
  by (simp add: within_def Cookies_set_def)

lemma within_set_customer: "within T b (Cookies_set rt (customer_key T) v a b)"
  by (simp add: within_def Cookies_set_def)

lemma within_remove_token: "within T b (Cookies_remove rt (token_key T) b)"
  by (simp add: within_def Cookies_remove_def)

lemma within_remove_customer: "within T b (Cookies_remove rt (customer_key T) b)"
  by (simp add: within_def Cookies_remove_def)

lemma within_navigate: "within T b (navigate href b)"
  by (simp add: within_def navigate_def)

lemma within_Cookies_get_token: "Cookies_get rt (token_key T) b = (r, b') \<Longrightarrow> within T b b'"
  by (auto simp: within_def Cookies_get_def split: if_splits)

lemma within_Cookies_get_customer: "Cookies_get rt (customer_key T) b = (r, b') \<Longrightarrow> within T b b'"
  by (auto simp: within_def Cookies_get_def split: if_splits)

lemma within_getAuthToken: "getAuthToken rt api b = (r, b') \<Longrightarrow> within (tenant api) b b'"
  by (auto simp: getAuthToken_def split: if_splits dest: within_Cookies_get_token)

lemma within_setAuthToken: "within (tenant api) b (setAuthToken rt api t b)"
  by (simp add: setAuthToken_def within_set_token)

lemma within_clearAuthData: "within (tenant api) b (clearAuthData rt api b)"
  unfolding clearAuthData_def
  by (auto intro: within_trans[OF within_remove_token within_remove_customer])

lemma within_request_interceptor:
  "request_interceptor rt api config b = (config', b') \<Longrightarrow> within (tenant api) b b'"
  by (auto simp: request_interceptor_def split: prod.splits dest: within_getAuthToken)

lemma within_response_interceptor: "within (tenant api) b (response_interceptor rt api err b)"
  unfolding response_interceptor_def Let_def
  by (auto intro: within_trans[OF within_clearAuthData within_navigate] within_clearAuthData)

lemma within_client_request:
  "client_request rt api server m path body b = (r, b') \<Longrightarrow> within (tenant api) b b'"
  unfolding client_request_def
  by (auto split: prod.splits sum.splits dest!: within_request_interceptor
           intro: within_trans[OF _ within_response_interceptor])

lemma snd_caught: "caught fallback r = (x, b') \<Longrightarrow> snd r = b'"
  by (auto simp: caught_def split: prod.splits sum.splits)

lemma snd_returned_data: "returned_data r = (x, b') \<Longrightarrow> snd r = b'"
  by (auto simp: returned_data_def split: prod.splits sum.splits)

lemma within_persist_session:
  "persist_session rt api data b = (r, b') \<Longrightarrow> within (tenant api) b b'"
  unfolding persist_session_def Let_def
  by (auto split: option.splits if_splits intro: within_trans[OF within_setAuthToken within_set_customer])

lemma within_persist_session_snd: "within (tenant api) b (snd (persist_session rt api data b))"
  using within_persist_session [of rt api data b] by (cases "persist_session rt api data b") simp

lemma within_login: "login rt api server credentials b = (r, b') \<Longrightarrow> within (tenant api) b b'"
  unfolding login_def
  by (auto dest!: snd_caught within_client_request split: prod.splits sum.splits
           intro: within_trans[OF _ within_persist_session_snd])

lemma within_register: "register rt api server d b = (r, b') \<Longrightarrow> within (tenant api) b b'"
  unfolding register_def
  by (auto dest!: snd_caught within_client_request split: prod.splits sum.splits
           intro: within_trans[OF _ within_persist_session_snd])

lemma within_logout: "logout rt api server b = (r, b') \<Longrightarrow> within (tenant api) b b'"
  unfolding logout_def
  by (auto split: prod.splits sum.splits
           dest!: within_client_request intro: within_trans[OF _ within_clearAuthData])

lemma within_thin:
  "caught fallback (returned_data (client_request rt api server m path body b)) = (r, b')
     \<Longrightarrow> within (tenant api) b b'"
  by (cases "client_request rt api server m path body b")
     (auto simp: caught_def returned_data_def split: sum.splits dest: within_client_request)

lemma within_updateProfile: "updateProfile rt api server d b = (r, b') \<Longrightarrow> within (tenant api) b b'"
  unfolding updateProfile_def
  by (auto dest!: snd_caught split: prod.splits sum.splits option.splits if_splits
           dest!: within_client_request intro: within_trans[OF _ within_set_customer])

lemma within_getServiceRequests: "getServiceRequests rt api server b = (r, b') \<Longrightarrow> within (tenant api) b b'"
  unfolding getServiceRequests_def
  by (auto dest!: snd_caught split: prod.splits sum.splits option.splits if_splits
           dest!: within_client_request)

lemma within_getCurrentCustomer: "getCurrentCustomer rt api b = (r, b') \<Longrightarrow> within (tenant api) b b'"
  unfolding getCurrentCustomer_def
  by (auto split: prod.splits option.splits if_splits dest!: within_Cookies_get_customer)

lemma within_isAuthenticated: "isAuthenticated rt api b = (r, b') \<Longrightarrow> within (tenant api) b b'"
  unfolding isAuthenticated_def
  by (auto split: prod.splits if_splits dest!: within_getAuthToken within_getCurrentCustomer
           intro: within_trans)

lemma within_invoke: "invoke rt api server c b = (r, b') \<Longrightarrow> within (tenant api) b b'"
  by (cases c)
     (auto simp: forgotPassword_def getDashboard_def getProfile_def getServiceRequest_def
                 createServiceRequest_def addComment_def
           split: prod.splits option.splits
           dest: within_login within_register within_logout within_thin within_updateProfile
                 within_getServiceRequests within_getCurrentCustomer within_isAuthenticated
                 within_getAuthToken
           intro: within_setAuthToken within_clearAuthData)

section \<open>The cookies of another tenant pass through every method\<close>

lemma ow_Cookies_get:
  "k \<noteq> name \<Longrightarrow> Cookies_get rt name (overwrite k x b) = apsnd (overwrite k x) (Cookies_get rt name b)"
  by (simp add: Cookies_get_def overwrite_def)

lemma ow_Cookies_set:
  "k \<noteq> name \<Longrightarrow> Cookies_set rt name v a (overwrite k x b) = overwrite k x (Cookies_set rt name v a b)"
  by (auto simp: Cookies_set_def overwrite_def fun_upd_twist)

lemma ow_Cookies_remove:
  "k \<noteq> name \<Longrightarrow> Cookies_remove rt name (overwrite k x b) = overwrite k x (Cookies_remove rt name b)"
  by (auto simp: Cookies_remove_def overwrite_def fun_upd_twist)

lemma ow_navigate: "navigate href (overwrite k x b) = overwrite k x (navigate href b)"
  by (simp add: navigate_def overwrite_def)

lemma ow_getAuthToken:
  "k \<noteq> token_key (tenant api) \<Longrightarrow>
   getAuthToken rt api (overwrite k x b) = apsnd (overwrite k x) (getAuthToken rt api b)"
  by (simp add: getAuthToken_def ow_Cookies_get)

lemma ow_setAuthToken:
  "k \<noteq> token_key (tenant api) \<Longrightarrow>
   setAuthToken rt api t (overwrite k x b) = overwrite k x (setAuthToken rt api t b)"
  by (simp add: setAuthToken_def ow_Cookies_set)

lemma ow_clearAuthData:
  "k \<noteq> token_key (tenant api) \<Longrightarrow> k \<noteq> customer_key (tenant api) \<Longrightarrow>
   clearAuthData rt api (overwrite k x b) = overwrite k x (clearAuthData rt api b)"
  by (simp add: clearAuthData_def ow_Cookies_remove)

lemma ow_request_interceptor:
  "k \<noteq> token_key (tenant api) \<Longrightarrow>
   request_interceptor rt api config (overwrite k x b)
     = apsnd (overwrite k x) (request_interceptor rt api config b)"
  by (simp add: request_interceptor_def ow_getAuthToken split: prod.splits)

lemma ow_response_interceptor:
  "k \<noteq> token_key (tenant api) \<Longrightarrow> k \<noteq> customer_key (tenant api) \<Longrightarrow>
   response_interceptor rt api err (overwrite k x b) = overwrite k x (response_interceptor rt api err b)"
  by (simp add: response_interceptor_def ow_clearAuthData ow_navigate Let_def)

lemma ow_client_request:
  "k \<noteq> token_key (tenant api) \<Longrightarrow> k \<noteq> customer_key (tenant api) \<Longrightarrow>
   client_request rt api server m path body (overwrite k x b)
     = apsnd (overwrite k x) (client_request rt api server m path body b)"
  by (simp add: client_request_def ow_request_interceptor ow_response_interceptor
           split: prod.splits sum.splits)

lemma ow_caught: "caught f (apsnd g r) = apsnd g (caught f r)"
  by (simp add: caught_def split: prod.splits sum.splits)

lemma ow_returned_data: "returned_data (apsnd g r) = apsnd g (returned_data r)"
  by (simp add: returned_data_def split: prod.splits sum.splits)

lemma ow_persist_session:
  "k \<noteq> token_key (tenant api) \<Longrightarrow> k \<noteq> customer_key (tenant api) \<Longrightarrow>
   persist_session rt api data (overwrite k x b) = apsnd (overwrite k x) (persist_session rt api data b)"
  by (simp add: persist_session_def ow_setAuthToken ow_Cookies_set Let_def split: option.splits)

lemma ow_login:
  "k \<noteq> token_key (tenant api) \<Longrightarrow> k \<noteq> customer_key (tenant api) \<Longrightarrow>
   login rt api server c (overwrite k x b) = apsnd (overwrite k x) (login rt api server c b)"
  by (simp add: login_def ow_client_request ow_persist_session caught_def
           split: prod.splits sum.splits)


lemma ow_register:
  "k \<noteq> token_key (tenant api) \<Longrightarrow> k \<noteq> customer_key (tenant api) \<Longrightarrow>
   register rt api server c (overwrite k x b) = apsnd (overwrite k x) (register rt api server c b)"
  by (simp add: register_def ow_client_request ow_persist_session caught_def
           split: prod.splits sum.splits)

lemma ow_logout:
  "k \<noteq> token_key (tenant api) \<Longrightarrow> k \<noteq> customer_key (tenant api) \<Longrightarrow>
   logout rt api server (overwrite k x b) = apsnd (overwrite k x) (logout rt api server b)"
  by (simp add: logout_def ow_client_request ow_clearAuthData split: prod.splits sum.splits)

lemma ow_updateProfile:
  "k \<noteq> token_key (tenant api) \<Longrightarrow> k \<noteq> customer_key (tenant api) \<Longrightarrow>
   updateProfile rt api server d (overwrite k x b) = apsnd (overwrite k x) (updateProfile rt api server d b)"
  by (simp add: updateProfile_def ow_client_request ow_Cookies_set caught_def
           split: prod.splits sum.splits option.splits)

lemma ow_getServiceRequests:
  "k \<noteq> token_key (tenant api) \<Longrightarrow> k \<noteq> customer_key (tenant api) \<Longrightarrow>
   getServiceRequests rt api server (overwrite k x b) = apsnd (overwrite k x) (getServiceRequests rt api server b)"
  by (simp add: getServiceRequests_def ow_client_request caught_def
           split: prod.splits sum.splits option.splits)

lemma ow_getCurrentCustomer:
  "k \<noteq> customer_key (tenant api) \<Longrightarrow>
   getCurrentCustomer rt api (overwrite k x b) = apsnd (overwrite k x) (getCurrentCustomer rt api b)"
  by (simp add: getCurrentCustomer_def ow_Cookies_get split: prod.splits option.splits)

lemma ow_isAuthenticated:
  "k \<noteq> token_key (tenant api) \<Longrightarrow> k \<noteq> customer_key (tenant api) \<Longrightarrow>
   isAuthenticated rt api (overwrite k x b) = apsnd (overwrite k x) (isAuthenticated rt api b)"
  by (simp add: isAuthenticated_def ow_getAuthToken ow_getCurrentCustomer split: prod.splits)

lemma ow_invoke:
  "k \<noteq> token_key (tenant api) \<Longrightarrow> k \<noteq> customer_key (tenant api) \<Longrightarrow>
   invoke rt api server c (overwrite k x b) = apsnd (overwrite k x) (invoke rt api server c b)"
  by (cases c)
     (simp_all add: ow_login ow_register ow_logout ow_updateProfile ow_getServiceRequests
        ow_getCurrentCustomer ow_isAuthenticated ow_getAuthToken ow_setAuthToken ow_clearAuthData
        forgotPassword_def getDashboard_def getProfile_def getServiceRequest_def
        createServiceRequest_def addComment_def ow_client_request ow_caught ow_returned_data
        split: prod.splits option.splits)

lemma token_key_inj: "token_key a = token_key b \<longleftrightarrow> a = b"
  by (simp add: token_key_def)

lemma customer_key_inj: "customer_key a = customer_key b \<longleftrightarrow> a = b"
  by (simp add: customer_key_def)

lemma token_key_not_customer_key: "token_key a \<noteq> customer_key b"
  by (simp add: token_key_def customer_key_def)

lemma tenant_createApiClient [simp]: "tenant (createApiClient rt T) = T"
  by (simp add: createApiClient_def)

section \<open>Tenant resolution\<close>

text \<open>
  C5. For the host \<^verbatim>\<open>utility1.accesswash.org\<close> the Edge Routing Filter stamps the tenant
  \<^verbatim>\<open>utility1\<close>, whatever the path; for the host \<^verbatim>\<open>localhost:3000\<close> and the path
  \<^verbatim>\<open>/acme/portal/dashboard\<close> it stamps \<^verbatim>\<open>acme\<close>, and for the path \<^verbatim>\<open>/\<close> it stamps
  \<^verbatim>\<open>demo\<close>. The Tenant Resolver returns the route parameter when it is a string that is
  not empty; otherwise (no parameter, an empty one, or a list) it returns the first
  segment of the path, and \<^verbatim>\<open>demo\<close> when that segment is empty.
\<close>

theorem tenant_resolution:
  "x_tenant (middleware \<lparr>host = Some ''utility1.accesswash.org'', pathname = p\<rparr>) = Some ''utility1''
   \<and> x_tenant (middleware \<lparr>host = Some ''localhost:3000'', pathname = ''/acme/portal/dashboard''\<rparr>) = Some ''acme''
   \<and> x_tenant (middleware \<lparr>host = Some ''localhost:3000'', pathname = ''/''\<rparr>) = Some ''demo''
   \<and> useTenant None ''/'' = ''demo''
   \<and> (t \<noteq> [] \<longrightarrow> useTenant (Some (Single t)) p = t)
   \<and> useTenant (Some (Single [])) p = useTenant None p
   \<and> useTenant (Some (Multi ts)) p = useTenant None p
   \<and> (CHR ''/'' \<notin> set seg \<longrightarrow>
        useTenant None (''/'' @ seg) = (if seg = [] then ''demo'' else seg)
        \<and> useTenant None (''/'' @ seg @ ''/'' @ rest) = (if seg = [] then ''demo'' else seg))"
proof -
  have m1: "x_tenant (middleware \<lparr>host = Some ''utility1.accesswash.org'', pathname = p\<rparr>) = Some ''utility1''"
    by (simp add: middleware_def x_tenant_def)
  have m2: "x_tenant (middleware \<lparr>host = Some ''localhost:3000'', pathname = ''/acme/portal/dashboard''\<rparr>) = Some ''acme''"
    by (simp add: middleware_def x_tenant_def at_index_def)
  have m3: "x_tenant (middleware \<lparr>host = Some ''localhost:3000'', pathname = ''/''\<rparr>) = Some ''demo''"
    by (simp add: middleware_def x_tenant_def at_index_def)
  have u0: "useTenant None ''/'' = ''demo''"
    by (simp add: useTenant_def at_index_def)
  have u1: "t \<noteq> [] \<longrightarrow> useTenant (Some (Single t)) p = t"
    by (simp add: useTenant_def)
  have u2: "useTenant (Some (Single [])) p = useTenant None p"
    by (simp add: useTenant_def)
  have u3: "useTenant (Some (Multi ts)) p = useTenant None p"
    by (simp add: useTenant_def)
  have u4: "CHR ''/'' \<notin> set seg \<longrightarrow> useTenant None (''/'' @ seg) = (if seg = [] then ''demo'' else seg)"
    by (simp add: useTenant_def at_index_def js_split_no_sep)
  have u5: "CHR ''/'' \<notin> set seg \<longrightarrow> useTenant None (''/'' @ seg @ ''/'' @ rest) = (if seg = [] then ''demo'' else seg)"
    using js_split_nonempty[of "CHR ''/''" rest]
    by (simp add: useTenant_def at_index_def js_split_at_sep)
  from m1 m2 m3 u0 u1 u2 u3 u4 u5 show ?thesis by blast
qed

theorem tenant_resolution_witness:
  "''acme'' \<noteq> [] \<and> useTenant (Some (Single ''acme'')) ''/utility1/portal'' = ''acme''
   \<and> CHR ''/'' \<notin> set ''utility1'' \<and> useTenant None ''/utility1/portal'' = ''utility1''
   \<and> useTenant None ''/utility1'' = ''utility1''"
  using tenant_resolution [of "''/utility1/portal''" "''acme''" "[]" "''utility1''" "''portal''"]
  by simp

section \<open>Storage key isolation\<close>

text \<open>
  C1. Let \<open>T1\<close> and \<open>T2\<close> be two distinct tenants and take any method of the client
  constructed for \<open>T2\<close>: the private helpers getAuthToken, setAuthToken and clearAuthData,
  getCurrentCustomer, isAuthenticated, and every network operation (with the cookie
  writes of login, register and updateProfile), against any backend. Every cookie event
  of the call (a read, a write or a removal) names \<^verbatim>\<open>accesswash_token_T2\<close> or
  \<^verbatim>\<open>accesswash_customer_T2\<close>, never a cookie of \<open>T1\<close>; the two cookies of \<open>T1\<close> are after the
  call what they were before; and the call returns the same result and leaves the same
  page whatever the cookies of \<open>T1\<close> hold. The four keys of two distinct tenants are four
  distinct names.
\<close>

theorem tenant_cookie_isolation:
  assumes "T1 \<noteq> T2"
  shows "(\<forall>e \<in> set (new_events b (snd (invoke rt (createApiClient rt T2) server c b))).
            cookie_name e \<noteq> Some (token_key T1) \<and> cookie_name e \<noteq> Some (customer_key T1)
            \<and> (cookie_name e = None \<or> cookie_name e = Some (token_key T2)
                 \<or> cookie_name e = Some (customer_key T2)))
       \<and> jar (snd (invoke rt (createApiClient rt T2) server c b)) (token_key T1) = jar b (token_key T1)
       \<and> jar (snd (invoke rt (createApiClient rt T2) server c b)) (customer_key T1) = jar b (customer_key T1)
       \<and> invoke rt (createApiClient rt T2) server c (overwrite (token_key T1) x b)
            = apsnd (overwrite (token_key T1) x) (invoke rt (createApiClient rt T2) server c b)
       \<and> invoke rt (createApiClient rt T2) server c (overwrite (customer_key T1) x b)
            = apsnd (overwrite (customer_key T1) x) (invoke rt (createApiClient rt T2) server c b)
       \<and> token_key T1 \<noteq> token_key T2 \<and> customer_key T1 \<noteq> customer_key T2
       \<and> token_key T1 \<noteq> customer_key T2 \<and> customer_key T1 \<noteq> token_key T2"
proof -
  let ?api = "createApiClient rt T2"
  obtain r b' where inv: "invoke rt ?api server c b = (r, b')"
    by (cases "invoke rt ?api server c b")
  have keys: "token_key T1 \<noteq> token_key T2" "customer_key T1 \<noteq> customer_key T2"
    "token_key T1 \<noteq> customer_key T2" "customer_key T1 \<noteq> token_key T2"
    using assms token_key_not_customer_key [of T1 T2] token_key_not_customer_key [of T2 T1]
    by (simp_all add: token_key_inj customer_key_inj)
  from within_invoke [OF inv] have w: "within T2 b b'" by simp
  then obtain evs where evs: "trace b' = trace b @ evs"
    and own: "\<forall>e\<in>set evs. cookie_name e = None \<or> cookie_name e = Some (token_key T2)
                \<or> cookie_name e = Some (customer_key T2)"
    and frame: "\<forall>k. k \<noteq> token_key T2 \<and> k \<noteq> customer_key T2 \<longrightarrow> jar b' k = jar b k"
    unfolding within_def by blast
  have ne: "new_events b b' = evs" by (simp add: new_events_def evs)
  have a: "\<forall>e \<in> set (new_events b b').
            cookie_name e \<noteq> Some (token_key T1) \<and> cookie_name e \<noteq> Some (customer_key T1)
            \<and> (cookie_name e = None \<or> cookie_name e = Some (token_key T2)
                 \<or> cookie_name e = Some (customer_key T2))"
    unfolding ne using own keys by auto
  have f1: "jar b' (token_key T1) = jar b (token_key T1)" using frame keys by simp
  have f2: "jar b' (customer_key T1) = jar b (customer_key T1)" using frame keys by simp
  have o1: "invoke rt ?api server c (overwrite (token_key T1) x b)
              = apsnd (overwrite (token_key T1) x) (invoke rt ?api server c b)"
    by (rule ow_invoke) (simp_all add: keys)
  have o2: "invoke rt ?api server c (overwrite (customer_key T1) x b)
              = apsnd (overwrite (customer_key T1) x) (invoke rt ?api server c b)"
    by (rule ow_invoke) (simp_all add: keys)
  show ?thesis using a f1 f2 o1 o2 keys unfolding inv by simp
qed

theorem tenant_cookie_isolation_witness:
  "''utility1'' \<noteq> ''acme''
   \<and> jar (snd (invoke in_browser (createApiClient in_browser ''acme'') (answering 200 flat_reply)
                 (Login example_credentials) (session_page ''utility1'')))
         (token_key ''utility1'')
       = jar (session_page ''utility1'') (token_key ''utility1'')
   \<and> jar (snd (invoke in_browser (createApiClient in_browser ''acme'') (answering 200 flat_reply)
                 (Login example_credentials) (session_page ''utility1'')))
         (customer_key ''utility1'')
       = jar (session_page ''utility1'') (customer_key ''utility1'')"
  using tenant_cookie_isolation [of "''utility1''" "''acme''" "session_page ''utility1''" in_browser
          "answering 200 flat_reply" "Login example_credentials"]
  by simp

section \<open>Outside the browser\<close>

lemma snd_caught_eq [simp]: "snd (caught fallback r) = snd r"
  by (simp add: caught_def split: prod.splits sum.splits)

lemma snd_returned_data_eq [simp]: "snd (returned_data r) = snd r"
  by (simp add: returned_data_def split: prod.splits sum.splits)

lemma serverside_client_request:
  "\<not> has_window rt \<Longrightarrow> snd (client_request rt api server m path body b) = b"
  by (simp add: client_request_def request_interceptor_def getAuthToken_def
        response_interceptor_def clearAuthData_def Let_def split: sum.splits)

lemma serverside_invoke: "\<not> has_window rt \<Longrightarrow> snd (invoke rt api server c b) = b"
proof (cases c)
  case (Login x1)
  assume "\<not> has_window rt"
  then show ?thesis using Login serverside_client_request[of rt api server POST "''/portal/auth/login/''" x1 b]
    by (cases "client_request rt api server POST ''/portal/auth/login/'' x1 b")
       (auto simp: login_def caught_def persist_session_def setAuthToken_def Cookies_set_def Let_def
             split: sum.splits option.splits)
next
  case (Register x1)
  assume "\<not> has_window rt"
  then show ?thesis using Register serverside_client_request[of rt api server POST "''/portal/auth/register/''" x1 b]
    by (cases "client_request rt api server POST ''/portal/auth/register/'' x1 b")
       (auto simp: register_def caught_def persist_session_def setAuthToken_def Cookies_set_def Let_def
             split: sum.splits option.splits)
next
  case Logout
  assume "\<not> has_window rt"
  then show ?thesis using Logout serverside_client_request[of rt api server POST "''/portal/auth/logout/''" JUndefined b]
    by (cases "client_request rt api server POST ''/portal/auth/logout/'' JUndefined b")
       (auto simp: logout_def clearAuthData_def split: sum.splits)
next
  case (UpdateProfile x1)
  assume "\<not> has_window rt"
  then show ?thesis using UpdateProfile serverside_client_request[of rt api server PUT "''/portal/profile/''" x1 b]
    by (cases "client_request rt api server PUT ''/portal/profile/'' x1 b")
       (auto simp: updateProfile_def caught_def Cookies_set_def split: sum.splits option.splits)
next
  case GetServiceRequests
  assume "\<not> has_window rt"
  then show ?thesis using GetServiceRequests serverside_client_request[of rt api server GET "''/support/requests/''" JUndefined b]
    by (cases "client_request rt api server GET ''/support/requests/'' JUndefined b")
       (auto simp: getServiceRequests_def caught_def split: sum.splits option.splits)
qed (auto simp: forgotPassword_def getDashboard_def getProfile_def getServiceRequest_def
          createServiceRequest_def addComment_def snd_caught_eq snd_returned_data_eq
          serverside_client_request getCurrentCustomer_def isAuthenticated_def getAuthToken_def
          setAuthToken_def clearAuthData_def split: prod.splits)


text \<open>
  C10. Where there is no window object, for every tenant: getAuthToken returns nothing
  and getCurrentCustomer returns null, isAuthenticated returns false, setAuthToken and
  clearAuthData write nothing, the response interceptor neither clears nor navigates, for
  a 401 as for any other error, and no method of the client changes the page at all.
\<close>

theorem outside_the_browser:
  assumes "\<not> has_window rt"
  shows "getAuthToken rt api b = (None, b)
       \<and> getCurrentCustomer rt api b = (JNull, b)
       \<and> isAuthenticated rt api b = (False, b)
       \<and> setAuthToken rt api token b = b
       \<and> clearAuthData rt api b = b
       \<and> response_interceptor rt api err b = b
       \<and> snd (invoke rt api server c b) = b"
  using assms serverside_invoke [of rt api server c b]
  by (simp add: getAuthToken_def getCurrentCustomer_def isAuthenticated_def setAuthToken_def
        clearAuthData_def response_interceptor_def Let_def)

theorem outside_the_browser_witness:
  "\<not> has_window on_server
   \<and> getAuthToken on_server (createApiClient on_server ''acme'') (session_page ''acme'')
        = (None, session_page ''acme'')
   \<and> isAuthenticated on_server (createApiClient on_server ''acme'') (session_page ''acme'')
        = (False, session_page ''acme'')
   \<and> response_interceptor on_server (createApiClient on_server ''acme'') (BadStatus 401 JNull)
        (session_page ''acme'') = session_page ''acme''"
  using outside_the_browser [of on_server "createApiClient on_server ''acme''" "session_page ''acme''"
          "[]" "BadStatus 401 JNull" "answering 401 JNull" Logout]
  by (simp add: on_server_def)

section \<open>isAuthenticated\<close>

lemma getCurrentCustomer_value:
  "fst (getCurrentCustomer rt api b) =
     (if has_window rt then
        (case jar b (customer_key (tenant api)) of
           None \<Rightarrow> JNull
         | Some c \<Rightarrow> if cvalue c = [] then JNull
                      else (case JSON_parse rt (cvalue c) of None \<Rightarrow> JNull | Some v \<Rightarrow> v))
      else JNull)"
  by (simp add: getCurrentCustomer_def Cookies_get_def split: option.splits)

lemma getAuthToken_value:
  "fst (getAuthToken rt api b) =
     (if has_window rt then map_option cvalue (jar b (token_key (tenant api))) else None)"
  by (simp add: getAuthToken_def Cookies_get_def)

lemma jar_getAuthToken [simp]: "jar (snd (getAuthToken rt api b)) = jar b"
  by (simp add: getAuthToken_def Cookies_get_def)

lemma jar_getCurrentCustomer [simp]: "jar (snd (getCurrentCustomer rt api b)) = jar b"
  by (simp add: getCurrentCustomer_def Cookies_get_def split: option.splits)

lemma isAuthenticated_value:
  "fst (isAuthenticated rt api b) \<longleftrightarrow>
     (\<exists>tok. fst (getAuthToken rt api b) = Some tok \<and> tok \<noteq> [])
     \<and> truthy (fst (getCurrentCustomer rt api b))"
proof -
  obtain token b1 where t: "getAuthToken rt api b = (token, b1)"
    by (cases "getAuthToken rt api b")
  have j: "jar b1 = jar b" using jar_getAuthToken [of rt api b] t by simp
  obtain c b2 where c: "getCurrentCustomer rt api b1 = (c, b2)"
    by (cases "getCurrentCustomer rt api b1")
  have "c = fst (getCurrentCustomer rt api b)"
    using c getCurrentCustomer_value [of rt api b1] getCurrentCustomer_value [of rt api b] j
    by simp
  then show ?thesis using t c by (cases token) (auto simp: isAuthenticated_def)
qed

text \<open>
  C2, as the code has it. For every tenant and every state of the cookie store,
  isAuthenticated returns true if and only if the client runs in a browser, the token
  cookie is present with a value that is not empty, and the customer cookie is present,
  not empty, and parses to a truthy value (anything but null, false, 0 and the empty
  string): that is, if and only if getAuthToken returns a token that is not empty and
  getCurrentCustomer returns a truthy value. It returns false whenever either cookie is
  absent.
\<close>

theorem isAuthenticated_iff:
  "(fst (isAuthenticated rt api b) \<longleftrightarrow>
      has_window rt
      \<and> (\<exists>t. jar b (token_key (tenant api)) = Some t \<and> cvalue t \<noteq> [])
      \<and> (\<exists>c v. jar b (customer_key (tenant api)) = Some c \<and> cvalue c \<noteq> []
               \<and> JSON_parse rt (cvalue c) = Some v \<and> truthy v))
   \<and> (fst (isAuthenticated rt api b) \<longleftrightarrow>
        (\<exists>tok. fst (getAuthToken rt api b) = Some tok \<and> tok \<noteq> [])
        \<and> truthy (fst (getCurrentCustomer rt api b)))
   \<and> (jar b (token_key (tenant api)) = None \<longrightarrow> \<not> fst (isAuthenticated rt api b))
   \<and> (jar b (customer_key (tenant api)) = None \<longrightarrow> \<not> fst (isAuthenticated rt api b))"
proof -
  have a: "fst (isAuthenticated rt api b) \<longleftrightarrow>
      has_window rt
      \<and> (\<exists>t. jar b (token_key (tenant api)) = Some t \<and> cvalue t \<noteq> [])
      \<and> (\<exists>c v. jar b (customer_key (tenant api)) = Some c \<and> cvalue c \<noteq> []
               \<and> JSON_parse rt (cvalue c) = Some v \<and> truthy v)"
    unfolding isAuthenticated_value getAuthToken_value getCurrentCustomer_value
    by (auto split: option.splits)
  show ?thesis using a isAuthenticated_value [of rt api b] by auto
qed

theorem isAuthenticated_iff_witness:
  "jar fresh_page (token_key ''acme'') = None
   \<and> \<not> fst (isAuthenticated in_browser (createApiClient in_browser ''acme'') fresh_page)
   \<and> fst (isAuthenticated in_browser (createApiClient in_browser ''acme'') (session_page ''acme''))"
proof -
  have p: "JSON_parse in_browser (serialize example_customer) = Some example_customer"
    by (simp add: in_browser_def example_parse_def)
  have s: "serialize example_customer \<noteq> []"
    by (simp add: example_customer_def)
  have k: "customer_key ''acme'' \<noteq> token_key ''acme''"
    using token_key_not_customer_key [of "''acme''" "''acme''"] by simp
  show ?thesis
    using isAuthenticated_iff [of in_browser "createApiClient in_browser ''acme''" fresh_page]
          isAuthenticated_iff [of in_browser "createApiClient in_browser ''acme''" "session_page ''acme''"]
          p s k
    by (simp add: fresh_page_def session_page_def example_customer_def in_browser_def)
qed

text \<open>
  C2 as it is stated fails for a token cookie that is present and empty: the customer
  cookie is present and parses to the customer, and isAuthenticated is false.
\<close>

theorem isAuthenticated_counterexample:
  "jar (empty_token_page ''acme'') (token_key ''acme'') \<noteq> None
   \<and> fst (getCurrentCustomer in_browser (createApiClient in_browser ''acme'') (empty_token_page ''acme''))
        = example_customer
   \<and> \<not> fst (isAuthenticated in_browser (createApiClient in_browser ''acme'') (empty_token_page ''acme''))"
proof -
  have p: "JSON_parse in_browser (serialize example_customer) = Some example_customer"
    by (simp add: in_browser_def example_parse_def)
  have s: "serialize example_customer \<noteq> []"
    by (simp add: example_customer_def)
  have k: "customer_key ''acme'' \<noteq> token_key ''acme''"
    using token_key_not_customer_key [of "''acme''" "''acme''"] by simp
  have w: "has_window in_browser" by (simp add: in_browser_def)
  have t: "jar (empty_token_page ''acme'') (token_key ''acme'') = Some (session_attributes in_browser)"
    by (simp add: empty_token_page_def overwrite_def)
  have c: "jar (empty_token_page ''acme'') (customer_key ''acme'')
             = Some ((session_attributes in_browser)\<lparr>cvalue := serialize example_customer\<rparr>)"
    using k by (simp add: empty_token_page_def overwrite_def session_page_def)
  show ?thesis
    unfolding isAuthenticated_value getAuthToken_value getCurrentCustomer_value
    using p s w t c by (simp add: session_attributes_def)
qed

section \<open>Login and the cached customer\<close>

lemma api_acme: "createApiClient in_browser ''acme'' = \<lparr>tenant = ''acme'', baseURL = ''http://acme.accesswash.org:8000/api'', timeout = 10000\<rparr>"
  by (simp add: createApiClient_def getBaseURL_def in_browser_def)

lemma login_enveloped:
  "login in_browser (createApiClient in_browser ''acme'') (answering 200 enveloped_reply)
     example_credentials fresh_page
   = (Inr enveloped_reply, fresh_page\<lparr>trace := [CookieGet (token_key ''acme'')]\<rparr>)"
  by (simp add: login_def caught_def client_request_def request_interceptor_def getAuthToken_def
        Cookies_get_def axios_send_def answering_def persist_session_def enveloped_reply_def
        opt_prop_def fresh_page_def in_browser_def createApiClient_def)

text \<open>
  C3 at the reply the claim names. The backend accepts the credentials and replies with
  the documented envelope, the customer and the tokens inside \<^verbatim>\<open>data\<close>, as the result
  type of login declares and as the store reads it. The client looks for the tokens and
  the customer beside \<^verbatim>\<open>success\<close>, finds none, and writes no cookie: login returns the
  reply, the cookie store stays empty, and getCurrentCustomer right after returns null,
  while the store holds the customer and reports the session as authenticated.
\<close>

theorem login_enveloped_reply_not_persisted:
  "fst (login in_browser (createApiClient in_browser ''acme'') (answering 200 enveloped_reply)
          example_credentials fresh_page) = Inr enveloped_reply
   \<and> jar (snd (login in_browser (createApiClient in_browser ''acme'') (answering 200 enveloped_reply)
          example_credentials fresh_page)) = Map.empty
   \<and> fst (getCurrentCustomer in_browser (createApiClient in_browser ''acme'')
        (snd (login in_browser (createApiClient in_browser ''acme'') (answering 200 enveloped_reply)
               example_credentials fresh_page))) = JNull
   \<and> fst (snd (store_login in_browser (answering 200 enveloped_reply) example_credentials ''acme''
                 initial_state fresh_page))
        = \<lparr>customer = example_customer, loading = False, error = None, isAuthenticated' = True\<rparr>"
  unfolding store_login_def login_enveloped
  by (simp add: getCurrentCustomer_value fresh_page_def session_settled_def enveloped_reply_def
        begin_action_def initial_state_def)

text \<open>
  With the customer and the tokens beside \<^verbatim>\<open>success\<close> the client writes both cookies,
  and the store, which reads \<^verbatim>\<open>response.data.customer\<close>, fails with a TypeError.
\<close>

lemma login_flat:
  "login in_browser (createApiClient in_browser ''acme'') (answering 200 flat_reply)
     example_credentials fresh_page
   = (Inr flat_reply,
      \<lparr>jar = [token_key ''acme'' \<mapsto> (session_attributes in_browser)\<lparr>cvalue := ''tok-1''\<rparr>,
              customer_key ''acme'' \<mapsto> (session_attributes in_browser)\<lparr>cvalue := serialize example_customer\<rparr>],
       trace = [CookieGet (token_key ''acme''), CookieSet (token_key ''acme'') ''tok-1'',
                CookieSet (customer_key ''acme'') (serialize example_customer)]\<rparr>)"
  by (simp add: login_def caught_def client_request_def request_interceptor_def getAuthToken_def
        Cookies_get_def axios_send_def answering_def persist_session_def flat_reply_def
        opt_prop_def fresh_page_def in_browser_def createApiClient_def setAuthToken_def
        Cookies_set_def stringified_def example_stringify_def example_customer_def Let_def)

lemma store_login_flat_reply_fails:
  "fst (store_login in_browser (answering 200 flat_reply) example_credentials ''acme''
          initial_state fresh_page) = Some (TypeError ''customer'')
   \<and> isAuthenticated' (fst (snd (store_login in_browser (answering 200 flat_reply)
          example_credentials ''acme'' initial_state fresh_page))) = False"
  unfolding store_login_def login_flat
  by (simp add: session_settled_def flat_reply_def session_failed_def)


section \<open>Logout\<close>

lemma jar_request_interceptor:
  "request_interceptor rt api config b = (config', b') \<Longrightarrow> jar b' = jar b"
  by (auto simp: request_interceptor_def getAuthToken_def Cookies_get_def split: prod.splits if_splits)

lemma jar_client_request_fulfilled:
  "client_request rt api server m path body b = (Inr data, b1) \<Longrightarrow> jar b1 = jar b"
  by (auto simp: client_request_def split: prod.splits sum.splits dest: jar_request_interceptor)

lemma jar_clearAuthData:
  "has_window rt \<Longrightarrow>
   jar (clearAuthData rt api b) = (jar b)(token_key (tenant api) := None, customer_key (tenant api) := None)"
  by (simp add: clearAuthData_def Cookies_remove_def)

lemma logout_result:
  "logout rt api server b = (r, b') \<Longrightarrow>
   r = Inr JUndefined \<and> (\<exists>b1. b' = clearAuthData rt api b1)"
  by (auto simp: logout_def split: prod.splits sum.splits)

lemma store_logout_state:
  "store_logout rt server T s b = (e, s', b') \<Longrightarrow> e = None \<and> s' = initial_state"
  by (cases s) (auto simp: store_logout_def initial_state_def split: prod.splits)

lemma store_logout_page:
  "store_logout rt server T s b = (e, s', b') \<Longrightarrow> \<exists>b1. b' = clearAuthData rt (createApiClient rt T) b1"
  by (auto simp: store_logout_def split: prod.splits dest: logout_result)

lemma cleared_reads:
  "fst (getAuthToken rt api (clearAuthData rt api b)) = None
   \<and> fst (getCurrentCustomer rt api (clearAuthData rt api b)) = JNull
   \<and> \<not> fst (isAuthenticated rt api (clearAuthData rt api b))
   \<and> (has_window rt \<longrightarrow> jar (clearAuthData rt api b) (token_key (tenant api)) = None
                       \<and> jar (clearAuthData rt api b) (customer_key (tenant api)) = None)"
  by (simp add: isAuthenticated_value getAuthToken_value getCurrentCustomer_value jar_clearAuthData)

text \<open>
  C7. For every tenant, every state of the store and of the page, and any two backends
  (each may accept the logout, refuse it, or not answer): two calls of the store's logout
  in succession throw nothing, and after each of them the store is unauthenticated
  without an error (customer null, isAuthenticated false, loading false, error null) and
  the cookies of the tenant are cleared: getAuthToken finds no token, getCurrentCustomer
  returns null, isAuthenticated is false, and in a browser both cookies are absent from
  the cookie store.
\<close>

theorem logout_twice:
  assumes "store_logout rt server T s b = (e1, s1, b1)"
    and "store_logout rt server' T s1 b1 = (e2, s2, b2)"
  shows "e1 = None \<and> e2 = None
       \<and> s1 = \<lparr>customer = JNull, loading = False, error = None, isAuthenticated' = False\<rparr>
       \<and> s2 = \<lparr>customer = JNull, loading = False, error = None, isAuthenticated' = False\<rparr>
       \<and> (\<forall>b'\<in>{b1, b2}.
             fst (getAuthToken rt (createApiClient rt T) b') = None
             \<and> fst (getCurrentCustomer rt (createApiClient rt T) b') = JNull
             \<and> \<not> fst (isAuthenticated rt (createApiClient rt T) b')
             \<and> (has_window rt \<longrightarrow> jar b' (token_key T) = None \<and> jar b' (customer_key T) = None))"
proof -
  from store_logout_state [OF assms(1)] store_logout_state [OF assms(2)]
  have st: "e1 = None" "e2 = None" "s1 = initial_state" "s2 = initial_state" by simp_all
  from store_logout_page [OF assms(1)] obtain c1 where c1: "b1 = clearAuthData rt (createApiClient rt T) c1" ..
  from store_logout_page [OF assms(2)] obtain c2 where c2: "b2 = clearAuthData rt (createApiClient rt T) c2" ..
  show ?thesis
    using st cleared_reads [of rt "createApiClient rt T" c1] cleared_reads [of rt "createApiClient rt T" c2]
    unfolding c1 c2 by (simp add: initial_state_def)
qed


theorem logout_twice_witness:
  "fst (store_logout in_browser stalled ''acme'' authenticated_state (session_page ''acme'')) = None
   \<and> fst (snd (store_logout in_browser stalled ''acme'' authenticated_state (session_page ''acme'')))
        = \<lparr>customer = JNull, loading = False, error = None, isAuthenticated' = False\<rparr>
   \<and> has_window in_browser
   \<and> jar (snd (snd (store_logout in_browser stalled ''acme'' authenticated_state (session_page ''acme''))))
        (token_key ''acme'') = None
   \<and> fst (store_logout in_browser (answering 401 JNull) ''acme''
        (fst (snd (store_logout in_browser stalled ''acme'' authenticated_state (session_page ''acme''))))
        (snd (snd (store_logout in_browser stalled ''acme'' authenticated_state (session_page ''acme''))))) = None
   \<and> jar (snd (snd (store_logout in_browser (answering 401 JNull) ''acme''
        (fst (snd (store_logout in_browser stalled ''acme'' authenticated_state (session_page ''acme''))))
        (snd (snd (store_logout in_browser stalled ''acme'' authenticated_state (session_page ''acme'')))))))
        (customer_key ''acme'') = None"
proof -
  let ?r1 = "store_logout in_browser stalled ''acme'' authenticated_state (session_page ''acme'')"
  let ?r2 = "store_logout in_browser (answering 401 JNull) ''acme'' (fst (snd ?r1)) (snd (snd ?r1))"
  have w: "has_window in_browser" by (simp add: in_browser_def)
  have h1: "?r1 = (fst ?r1, fst (snd ?r1), snd (snd ?r1))" by simp
  have h2: "?r2 = (fst ?r2, fst (snd ?r2), snd (snd ?r2))" by simp
  show ?thesis using logout_twice [OF h1 h2] w by blast
qed

section \<open>Failures in the store\<close>

lemma login_success_readable:
  "login rt api server credentials b = (Inr response, b') \<Longrightarrow> get_prop response ''success'' \<noteq> None"
  by (auto simp: login_def caught_def persist_session_def Let_def
           split: prod.splits sum.splits option.splits if_splits)

lemma register_success_readable:
  "register rt api server data' b = (Inr response, b') \<Longrightarrow> get_prop response ''success'' \<noteq> None"
  by (auto simp: register_def caught_def persist_session_def Let_def
           split: prod.splits sum.splits option.splits if_splits)

lemma caught_throws_Error: "caught fallback r = (Inl e, b') \<Longrightarrow> e = Error (message_of e)"
  by (auto simp: caught_def normalized_def split: prod.splits sum.splits)

lemma session_settled_thrown:
  "session_settled fallback s (Inl e, b') =
     (Some e, s\<lparr>error := Some (message_of e), loading := False, isAuthenticated' := False, customer := JNull\<rparr>, b')"
  by (simp add: session_settled_def session_failed_def)

lemma session_settled_refused:
  "get_prop response ''success'' \<noteq> None \<Longrightarrow> \<not> truthy (opt_prop response ''success'') \<Longrightarrow>
   session_settled fallback s (Inr response, b') =
     (Some (Error (if truthy (opt_prop response ''message'')
                   then to_string (opt_prop response ''message'') else fallback)),
      s\<lparr>error := Some (if truthy (opt_prop response ''message'')
                        then to_string (opt_prop response ''message'') else fallback),
        loading := False, isAuthenticated' := False, customer := JNull\<rparr>, b')"
  by (auto simp: session_settled_def session_failed_def opt_prop_def)

text \<open>
  C6, as the code has it. When the client's login (or register) throws, or returns a
  response whose \<^verbatim>\<open>success\<close> is falsy, the store's login (or register) ends
  unauthenticated with an error: loading false, isAuthenticated false, customer null, and
  error the message of the failure (the message of the error thrown, which is always a
  normalized Error; or the message of the response, or the action's fallback). It throws
  that error again. When the client's forgotPassword throws, the store's forgotPassword
  sets loading to false and error to the message, and leaves customer and isAuthenticated
  as they were. The error is retained until clearError is called or a new action begins:
  clearError resets it, login, register and forgotPassword reset it with their first
  statement, logout ends with it reset, none of the four actions depends on the error it
  finds, and loadCustomerFromStorage keeps it.
\<close>

theorem store_failure_transitions:
  "(login rt (createApiClient rt T) server credentials b = (Inl e, b') \<longrightarrow>
      e = Error (message_of e)
      \<and> store_login rt server credentials T s b
          = (Some e, \<lparr>customer = JNull, loading = False, error = Some (message_of e),
                      isAuthenticated' = False\<rparr>, b'))
   \<and> (login rt (createApiClient rt T) server credentials b = (Inr response, b')
        \<and> \<not> truthy (opt_prop response ''success'') \<longrightarrow>
      store_login rt server credentials T s b
        = (Some (Error (if truthy (opt_prop response ''message'')
                        then to_string (opt_prop response ''message'') else ''Login failed'')),
           \<lparr>customer = JNull, loading = False,
             error = Some (if truthy (opt_prop response ''message'')
                           then to_string (opt_prop response ''message'') else ''Login failed''),
             isAuthenticated' = False\<rparr>, b'))
   \<and> (register rt (createApiClient rt T) server credentials b = (Inl e, b') \<longrightarrow>
      e = Error (message_of e)
      \<and> store_register rt server credentials T s b
          = (Some e, \<lparr>customer = JNull, loading = False, error = Some (message_of e),
                      isAuthenticated' = False\<rparr>, b'))
   \<and> (register rt (createApiClient rt T) server credentials b = (Inr response, b')
        \<and> \<not> truthy (opt_prop response ''success'') \<longrightarrow>
      store_register rt server credentials T s b
        = (Some (Error (if truthy (opt_prop response ''message'')
                        then to_string (opt_prop response ''message'') else ''Registration failed'')),
           \<lparr>customer = JNull, loading = False,
             error = Some (if truthy (opt_prop response ''message'')
                           then to_string (opt_prop response ''message'') else ''Registration failed''),
             isAuthenticated' = False\<rparr>, b'))
   \<and> (forgotPassword rt (createApiClient rt T) server email b = (Inl e, b') \<longrightarrow>
      e = Error (message_of e)
      \<and> store_forgotPassword rt server email T s b
          = (Some e, s\<lparr>loading := False, error := Some (message_of e)\<rparr>, b'))
   \<and> error (clearError s) = None
   \<and> error (begin_action s) = None
   \<and> error (fst (loadCustomerFromStorage rt T s b)) = error s
   \<and> error (fst (snd (store_logout rt server T s b))) = None
   \<and> store_login rt server credentials T (s\<lparr>error := x\<rparr>) b = store_login rt server credentials T s b
   \<and> store_register rt server credentials T (s\<lparr>error := x\<rparr>) b = store_register rt server credentials T s b
   \<and> store_forgotPassword rt server email T (s\<lparr>error := x\<rparr>) b = store_forgotPassword rt server email T s b
   \<and> store_logout rt server T (s\<lparr>error := x\<rparr>) b = store_logout rt server T s b"
proof -
  have l1: "login rt (createApiClient rt T) server credentials b = (Inl e, b') \<longrightarrow>
      e = Error (message_of e)
      \<and> store_login rt server credentials T s b
          = (Some e, \<lparr>customer = JNull, loading = False, error = Some (message_of e),
                      isAuthenticated' = False\<rparr>, b')"
    by (cases s) (auto simp: store_login_def session_settled_thrown begin_action_def login_def
                       dest: caught_throws_Error)
  have l2: "login rt (createApiClient rt T) server credentials b = (Inr response, b')
        \<and> \<not> truthy (opt_prop response ''success'') \<longrightarrow>
      store_login rt server credentials T s b
        = (Some (Error (if truthy (opt_prop response ''message'')
                        then to_string (opt_prop response ''message'') else ''Login failed'')),
           \<lparr>customer = JNull, loading = False,
             error = Some (if truthy (opt_prop response ''message'')
                           then to_string (opt_prop response ''message'') else ''Login failed''),
             isAuthenticated' = False\<rparr>, b')"
    using login_success_readable [of rt "createApiClient rt T" server credentials b response b']
    by (cases s) (auto simp: store_login_def session_settled_refused begin_action_def)
  have r1: "register rt (createApiClient rt T) server credentials b = (Inl e, b') \<longrightarrow>
      e = Error (message_of e)
      \<and> store_register rt server credentials T s b
          = (Some e, \<lparr>customer = JNull, loading = False, error = Some (message_of e),
                      isAuthenticated' = False\<rparr>, b')"
    by (cases s) (auto simp: store_register_def session_settled_thrown begin_action_def register_def
                       dest: caught_throws_Error)
  have r2: "register rt (createApiClient rt T) server credentials b = (Inr response, b')
        \<and> \<not> truthy (opt_prop response ''success'') \<longrightarrow>
      store_register rt server credentials T s b
        = (Some (Error (if truthy (opt_prop response ''message'')
                        then to_string (opt_prop response ''message'') else ''Registration failed'')),
           \<lparr>customer = JNull, loading = False,
             error = Some (if truthy (opt_prop response ''message'')
                           then to_string (opt_prop response ''message'') else ''Registration failed''),
             isAuthenticated' = False\<rparr>, b')"
    using register_success_readable [of rt "createApiClient rt T" server credentials b response b']
    by (cases s) (auto simp: store_register_def session_settled_refused begin_action_def)
  have f: "forgotPassword rt (createApiClient rt T) server email b = (Inl e, b') \<longrightarrow>
      e = Error (message_of e)
      \<and> store_forgotPassword rt server email T s b
          = (Some e, s\<lparr>loading := False, error := Some (message_of e)\<rparr>, b')"
    by (cases s) (auto simp: store_forgotPassword_def begin_action_def forgotPassword_def
                       dest: caught_throws_Error)
  have k: "error (clearError s) = None \<and> error (begin_action s) = None
           \<and> error (fst (loadCustomerFromStorage rt T s b)) = error s"
    by (simp add: clearError_def begin_action_def loadCustomerFromStorage_def split: prod.splits)
  have n: "error (fst (snd (store_logout rt server T s b))) = None
      \<and> store_login rt server credentials T (s\<lparr>error := x\<rparr>) b = store_login rt server credentials T s b
      \<and> store_register rt server credentials T (s\<lparr>error := x\<rparr>) b = store_register rt server credentials T s b
      \<and> store_forgotPassword rt server email T (s\<lparr>error := x\<rparr>) b = store_forgotPassword rt server email T s b
      \<and> store_logout rt server T (s\<lparr>error := x\<rparr>) b = store_logout rt server T s b"
    by (simp add: store_logout_def store_login_def store_register_def store_forgotPassword_def
          begin_action_def split: prod.splits sum.splits)
  from l1 l2 r1 r2 f k n show ?thesis by blast
qed


theorem store_failure_transitions_witness:
  "fst (login in_browser (createApiClient in_browser ''acme'')
          (answering 400 (JObj [(''message'', JStr ''Invalid credentials'')]))
          example_credentials fresh_page) = Inl (Error ''Invalid credentials'')
   \<and> fst (snd (store_login in_browser (answering 400 (JObj [(''message'', JStr ''Invalid credentials'')]))
                 example_credentials ''acme'' authenticated_state fresh_page))
        = \<lparr>customer = JNull, loading = False, error = Some ''Invalid credentials'',
            isAuthenticated' = False\<rparr>
   \<and> error (fst (snd (store_logout in_browser (answering 400 (JObj [(''message'', JStr ''Invalid credentials'')]))
                 ''acme''
                 \<lparr>customer = JNull, loading = False, error = Some ''Invalid credentials'',
                   isAuthenticated' = False\<rparr> fresh_page))) = None"
proof -
  let ?server = "answering 400 (JObj [(''message'', JStr ''Invalid credentials'')])"
  let ?r = "login in_browser (createApiClient in_browser ''acme'') ?server example_credentials fresh_page"
  have f: "fst ?r = Inl (Error ''Invalid credentials'')"
    by (simp add: login_def caught_def client_request_def request_interceptor_def getAuthToken_def
          Cookies_get_def axios_send_def answering_def createApiClient_def in_browser_def
          normalized_def opt_prop_def fresh_page_def response_interceptor_def
          split: prod.splits)
  have h: "?r = (Inl (Error ''Invalid credentials''), snd ?r)"
    using f by (cases ?r) simp
  show ?thesis
    using f h
      store_failure_transitions [where rt = in_browser and T = "''acme''" and server = ?server
        and credentials = example_credentials and b = fresh_page
        and e = "Error ''Invalid credentials''" and b' = "snd ?r" and s = authenticated_state]
      store_failure_transitions [where rt = in_browser and T = "''acme''" and server = ?server
        and b = fresh_page
        and s = "\<lparr>customer = JNull, loading = False, error = Some ''Invalid credentials'',
                   isAuthenticated' = False\<rparr>"]
    by simp
qed

text \<open>
  C6 as it is stated fails for forgotPassword: the client reports a failure, and the
  store, signed in before, still holds the customer and is still authenticated.
\<close>

theorem forgotPassword_failure_counterexample:
  "fst (forgotPassword in_browser (createApiClient in_browser ''acme'') (answering 500 JNull)
          ''asha@example.org'' (session_page ''acme'')) = Inl (Error ''Failed to send reset email'')
   \<and> fst (snd (store_forgotPassword in_browser (answering 500 JNull) ''asha@example.org'' ''acme''
                 authenticated_state (session_page ''acme'')))
        = \<lparr>customer = example_customer, loading = False,
            error = Some ''Failed to send reset email'', isAuthenticated' = True\<rparr>"
proof -
  have f: "fst (forgotPassword in_browser (createApiClient in_browser ''acme'') (answering 500 JNull)
          ''asha@example.org'' (session_page ''acme'')) = Inl (Error ''Failed to send reset email'')"
    by (simp add: forgotPassword_def caught_def returned_data_def client_request_def
          request_interceptor_def getAuthToken_def Cookies_get_def axios_send_def answering_def
          createApiClient_def in_browser_def normalized_def opt_prop_def
          split: prod.splits)
  show ?thesis
    using f
    by (cases "forgotPassword in_browser (createApiClient in_browser ''acme'') (answering 500 JNull)
          ''asha@example.org'' (session_page ''acme'')")
       (simp add: store_forgotPassword_def begin_action_def authenticated_state_def)
qed

section \<open>Normalized errors\<close>

lemma client_request_outcome:
  "client_request rt api server m path body b =
     (case axios_send api server
             (fst (request_interceptor rt api
                \<lparr>rmethod = m, url = baseURL api @ path, authorization = None, payload = body\<rparr> b)) of
        Inr data \<Rightarrow> (Inr data, snd (getAuthToken rt api b))
      | Inl err \<Rightarrow> (Inl err, response_interceptor rt api err (snd (getAuthToken rt api b))))"
  by (simp add: client_request_def request_interceptor_def split: prod.splits sum.splits)

lemma fst_caught_Error: "fst (caught fallback r) = Inl e \<Longrightarrow> e = Error (message_of e)"
  by (cases r) (auto simp: caught_def normalized_def split: sum.splits)

lemma thrown_is_normalized:
  "fallback_message c = Some fallback \<Longrightarrow> fst (invoke rt api server c b) = Inl e \<Longrightarrow>
   e = Error (message_of e)"
  by (cases c)
     (auto simp: login_def register_def forgotPassword_def getDashboard_def getProfile_def
                 updateProfile_def getServiceRequests_def getServiceRequest_def
                 createServiceRequest_def addComment_def
           dest: fst_caught_Error)

lemma rejected_is_normalized:
  "fallback_message c = Some fallback \<Longrightarrow> outcome rt api server c b = Some (Inl err) \<Longrightarrow>
   fst (invoke rt api server c b) = Inl (normalized (Transport err) fallback)"
  by (cases c)
     (auto simp: login_def register_def forgotPassword_def getDashboard_def getProfile_def
                 updateProfile_def getServiceRequests_def getServiceRequest_def
                 createServiceRequest_def addComment_def outcome_def sent_request_def
                 client_request_outcome caught_def returned_data_def)

lemma fulfilled_never_raw:
  "fallback_message c = Some fallback \<Longrightarrow> outcome rt api server c b = Some (Inr data) \<Longrightarrow>
   fst (invoke rt api server c b) = Inl e \<Longrightarrow> e = Error fallback"
  by (cases c)
     (auto simp: login_def register_def forgotPassword_def getDashboard_def getProfile_def
                 updateProfile_def getServiceRequests_def getServiceRequest_def
                 createServiceRequest_def addComment_def outcome_def sent_request_def
                 client_request_outcome caught_def returned_data_def persist_session_def
                 normalized_def Let_def
           split: option.splits if_splits)

lemma outcome_defined: "fallback_message c = Some fallback \<Longrightarrow> outcome rt api server c b \<noteq> None"
  by (cases c) (auto simp: outcome_def sent_request_def)

lemma axios_send_timeout: "timeout api < fst (server q) \<Longrightarrow> axios_send api server q = Inl TimedOut"
  by (cases "server q") (simp add: axios_send_def)

text \<open>
  C9. Take any of the ten operations login, register, forgotPassword, getDashboard,
  getProfile, updateProfile, getServiceRequests, getServiceRequest, createServiceRequest
  and addComment, with the fallback message of its \<^verbatim>\<open>catch\<close> clause, against any backend.
  Whatever the operation throws is an \<^verbatim>\<open>Error\<close> that carries a message string, never
  the error of the transport and never a TypeError. When the request is rejected (a
  response outside 2xx, no response, or the timeout) the message is the backend's
  \<^verbatim>\<open>message\<close> when the response has one that is truthy (itself when it is a string that
  is not empty), and the fallback otherwise; so it is the fallback when the backend cannot
  be reached and when the request times out, which it does whenever the answer takes
  longer than the timeout of the client, 10000 ms. A failure while reading a fulfilled
  response gives the fallback as well.
\<close>

theorem failures_are_normalized:
  assumes "fallback_message c = Some fallback"
  shows "(\<forall>e. fst (invoke rt api server c b) = Inl e \<longrightarrow> (\<exists>m. e = Error m))
       \<and> (\<forall>err. outcome rt api server c b = Some (Inl err) \<longrightarrow>
             fst (invoke rt api server c b)
               = Inl (Error (if truthy (backend_message (Transport err))
                             then to_string (backend_message (Transport err)) else fallback)))
       \<and> (\<forall>status body m. outcome rt api server c b = Some (Inl (BadStatus status body))
             \<and> opt_prop body ''message'' = JStr m \<and> m \<noteq> [] \<longrightarrow>
             fst (invoke rt api server c b) = Inl (Error m))
       \<and> (\<forall>status body. outcome rt api server c b = Some (Inl (BadStatus status body))
             \<and> \<not> truthy (opt_prop body ''message'') \<longrightarrow>
             fst (invoke rt api server c b) = Inl (Error fallback))
       \<and> (outcome rt api server c b = Some (Inl NetworkDown) \<longrightarrow>
             fst (invoke rt api server c b) = Inl (Error fallback))
       \<and> (outcome rt api server c b = Some (Inl TimedOut) \<longrightarrow>
             fst (invoke rt api server c b) = Inl (Error fallback))
       \<and> (\<forall>q. sent_request rt api c b = Some q \<and> timeout api < fst (server q) \<longrightarrow>
             fst (invoke rt api server c b) = Inl (Error fallback))
       \<and> (\<forall>data e. outcome rt api server c b = Some (Inr data)
             \<and> fst (invoke rt api server c b) = Inl e \<longrightarrow> e = Error fallback)
       \<and> timeout (createApiClient rt T) = 10000"
proof -
  have a: "\<forall>e. fst (invoke rt api server c b) = Inl e \<longrightarrow> (\<exists>m. e = Error m)"
    using thrown_is_normalized [OF assms] by blast
  have r: "\<And>err. outcome rt api server c b = Some (Inl err) \<Longrightarrow>
             fst (invoke rt api server c b)
               = Inl (Error (if truthy (backend_message (Transport err))
                             then to_string (backend_message (Transport err)) else fallback))"
    using rejected_is_normalized [OF assms] by (simp add: normalized_def)
  have t: "\<And>q. sent_request rt api c b = Some q \<Longrightarrow> timeout api < fst (server q) \<Longrightarrow>
             outcome rt api server c b = Some (Inl TimedOut)"
    by (simp add: outcome_def axios_send_timeout)
  have c: "timeout (createApiClient rt T) = 10000" by (simp add: createApiClient_def)
  have u: "\<And>data e. outcome rt api server c b = Some (Inr data) \<Longrightarrow>
             fst (invoke rt api server c b) = Inl e \<Longrightarrow> e = Error fallback"
    using fulfilled_never_raw [OF assms] by blast
  show ?thesis using a r t c u by auto
qed


theorem failures_are_normalized_witness:
  "fallback_message GetDashboard = Some ''Failed to load dashboard''
   \<and> timeout (createApiClient in_browser ''acme'') < fst (stalled
        \<lparr>rmethod = GET, url = ''http://acme.accesswash.org:8000/api/portal/dashboard/'',
          authorization = Some ''Bearer tok-1'', payload = JUndefined\<rparr>)
   \<and> fst (invoke in_browser (createApiClient in_browser ''acme'') stalled GetDashboard
            (session_page ''acme'')) = Inl (Error ''Failed to load dashboard'')"
proof -
  let ?api = "createApiClient in_browser ''acme''"
  let ?q = "\<lparr>rmethod = GET, url = ''http://acme.accesswash.org:8000/api/portal/dashboard/'',
          authorization = Some ''Bearer tok-1'', payload = JUndefined\<rparr>"
  have f: "fallback_message GetDashboard = Some ''Failed to load dashboard''" by simp
  have q: "sent_request in_browser ?api GetDashboard (session_page ''acme'') = Some ?q"
    by (simp add: sent_request_def request_interceptor_def getAuthToken_def Cookies_get_def
          createApiClient_def getBaseURL_def in_browser_def session_page_def
          token_key_not_customer_key)
  have t: "timeout ?api < fst (stalled ?q)"
    by (simp add: createApiClient_def stalled_def)
  show ?thesis
    using failures_are_normalized [OF f, where rt = in_browser and api = ?api and server = stalled
            and b = "session_page ''acme''" and T = "''acme''"]
          q t f
    by auto
qed

section \<open>The 401 response\<close>

lemma new_events_append [simp]: "trace b' = trace b @ evs \<Longrightarrow> new_events b b' = evs"
  by (simp add: new_events_def)

lemma browser_getAuthToken:
  "has_window rt \<Longrightarrow>
   getAuthToken rt api b
     = (map_option cvalue (jar b (token_key (tenant api))),
        b\<lparr>trace := trace b @ [CookieGet (token_key (tenant api))]\<rparr>)"
  by (simp add: getAuthToken_def Cookies_get_def)

lemma browser_unauthorized:
  "has_window rt \<Longrightarrow> response_status err = Some 401 \<Longrightarrow>
   response_interceptor rt api err b
     = b\<lparr>jar := (jar b)(token_key (tenant api) := None, customer_key (tenant api) := None),
         trace := trace b @ [CookieRemove (token_key (tenant api)),
                             CookieRemove (customer_key (tenant api)),
                             Navigate (login_page (tenant api))]\<rparr>"
  by (simp add: response_interceptor_def clearAuthData_def Cookies_remove_def navigate_def)

lemma other_rejections: "response_status err \<noteq> Some 401 \<Longrightarrow> response_interceptor rt api err b = b"
  by (simp add: response_interceptor_def)

lemma rejected_page:
  "fallback_message c = Some fallback \<Longrightarrow> outcome rt api server c b = Some (Inl err) \<Longrightarrow>
   snd (invoke rt api server c b) = response_interceptor rt api err (snd (getAuthToken rt api b))"
  by (cases c)
     (auto simp: login_def register_def forgotPassword_def getDashboard_def getProfile_def
                 updateProfile_def getServiceRequests_def getServiceRequest_def
                 createServiceRequest_def addComment_def outcome_def sent_request_def
                 client_request_outcome caught_def returned_data_def)

lemma fulfilled_page_events:
  "has_window rt \<Longrightarrow> fallback_message c = Some fallback \<Longrightarrow>
   outcome rt api server c b = Some (Inr data) \<Longrightarrow>
   \<exists>evs. trace (snd (invoke rt api server c b)) = trace b @ evs
         \<and> (\<forall>e\<in>set evs. (\<forall>name. e \<noteq> CookieRemove name) \<and> (\<forall>href. e \<noteq> Navigate href))"
  by (cases c)
     (auto simp: login_def register_def forgotPassword_def getDashboard_def getProfile_def
                 updateProfile_def getServiceRequests_def getServiceRequest_def
                 createServiceRequest_def addComment_def outcome_def sent_request_def
                 client_request_outcome caught_def returned_data_def persist_session_def
                 browser_getAuthToken setAuthToken_def Cookies_set_def Let_def
           split: option.splits)

lemma not_unauthorized: "(\<forall>body. err \<noteq> BadStatus 401 body) \<Longrightarrow> response_status err \<noteq> Some 401"
  by (cases err) auto

lemma logout_page:
  "outcome rt api server Logout b = Some out \<Longrightarrow>
   snd (logout rt api server b)
     = clearAuthData rt api
         (case out of Inl err \<Rightarrow> response_interceptor rt api err (snd (getAuthToken rt api b))
                    | Inr data \<Rightarrow> snd (getAuthToken rt api b))"
  by (auto simp: logout_def outcome_def sent_request_def client_request_outcome split: sum.splits)

lemma browser_clearAuthData:
  "has_window rt \<Longrightarrow>
   clearAuthData rt api b
     = b\<lparr>jar := (jar b)(token_key (tenant api) := None, customer_key (tenant api) := None),
         trace := trace b @ [CookieRemove (token_key (tenant api)),
                             CookieRemove (customer_key (tenant api))]\<rparr>"
  by (simp add: clearAuthData_def Cookies_remove_def)

text \<open>
  C4. In a browser, for every tenant and any backend: the response interceptor answers a
  response with status 401 with exactly one removal of \<^verbatim>\<open>accesswash_token_{tenant}\<close>, one
  removal of \<^verbatim>\<open>accesswash_customer_{tenant}\<close> and one navigation to
  \<^verbatim>\<open>/{tenant}/portal/auth/login\<close>, after which both cookies are gone; a response with
  any other status, a timeout and an unreachable backend it passes on without touching
  the page. Hence each of the ten operations that reach the backend and throw on failure
  adds to the trace, on a 401, the read of the token by the request interceptor, the two
  removals and the one navigation, and nothing else; on any other rejection it leaves the
  page as it was but for that read; and on any outcome other than a 401, fulfilled or
  rejected, it removes no cookie and navigates nowhere. logout, which clears the cookies
  itself whatever the outcome, navigates once on a 401, the interceptor's clearing being
  followed by its own, and on any other outcome only clears.
\<close>

theorem unauthorized_response:
  assumes "has_window rt"
  shows "new_events b (response_interceptor rt api (BadStatus 401 body) b)
           = [CookieRemove (''accesswash_token_'' @ tenant api),
              CookieRemove (''accesswash_customer_'' @ tenant api),
              Navigate (''/'' @ tenant api @ ''/portal/auth/login'')]
       \<and> jar (response_interceptor rt api (BadStatus 401 body) b) (''accesswash_token_'' @ tenant api) = None
       \<and> jar (response_interceptor rt api (BadStatus 401 body) b) (''accesswash_customer_'' @ tenant api) = None
       \<and> (status \<noteq> 401 \<longrightarrow> response_interceptor rt api (BadStatus status body) b = b)
       \<and> response_interceptor rt api TimedOut b = b
       \<and> response_interceptor rt api NetworkDown b = b
       \<and> (fallback_message c \<noteq> None \<and> outcome rt api server c b = Some (Inl (BadStatus 401 body)) \<longrightarrow>
            new_events b (snd (invoke rt api server c b))
              = [CookieGet (''accesswash_token_'' @ tenant api),
                 CookieRemove (''accesswash_token_'' @ tenant api),
                 CookieRemove (''accesswash_customer_'' @ tenant api),
                 Navigate (''/'' @ tenant api @ ''/portal/auth/login'')]
            \<and> jar (snd (invoke rt api server c b)) (''accesswash_token_'' @ tenant api) = None
            \<and> jar (snd (invoke rt api server c b)) (''accesswash_customer_'' @ tenant api) = None)
       \<and> (fallback_message c \<noteq> None \<and> outcome rt api server c b = Some (Inl err)
            \<and> (\<forall>body'. err \<noteq> BadStatus 401 body') \<longrightarrow>
            snd (invoke rt api server c b)
              = b\<lparr>trace := trace b @ [CookieGet (''accesswash_token_'' @ tenant api)]\<rparr>)
       \<and> (fallback_message c \<noteq> None \<and> outcome rt api server c b = Some out
            \<and> (\<forall>body'. out \<noteq> Inl (BadStatus 401 body')) \<longrightarrow>
            (\<forall>e\<in>set (new_events b (snd (invoke rt api server c b))).
               (\<forall>name. e \<noteq> CookieRemove name) \<and> (\<forall>href. e \<noteq> Navigate href)))
       \<and> (outcome rt api server Logout b = Some (Inl (BadStatus 401 body)) \<longrightarrow>
            new_events b (snd (invoke rt api server Logout b))
              = [CookieGet (''accesswash_token_'' @ tenant api),
                 CookieRemove (''accesswash_token_'' @ tenant api),
                 CookieRemove (''accesswash_customer_'' @ tenant api),
                 Navigate (''/'' @ tenant api @ ''/portal/auth/login''),
                 CookieRemove (''accesswash_token_'' @ tenant api),
                 CookieRemove (''accesswash_customer_'' @ tenant api)])
       \<and> (outcome rt api server Logout b = Some out
            \<and> (\<forall>body'. out \<noteq> Inl (BadStatus 401 body')) \<longrightarrow>
            new_events b (snd (invoke rt api server Logout b))
              = [CookieGet (''accesswash_token_'' @ tenant api),
                 CookieRemove (''accesswash_token_'' @ tenant api),
                 CookieRemove (''accesswash_customer_'' @ tenant api)])"
proof -
  let ?tk = "''accesswash_token_'' @ tenant api" and ?ck = "''accesswash_customer_'' @ tenant api"
  let ?page = "''/'' @ tenant api @ ''/portal/auth/login''"
  have tk: "token_key (tenant api) = ?tk" and ck: "customer_key (tenant api) = ?ck"
    and lp: "login_page (tenant api) = ?page"
    by (simp_all add: token_key_def customer_key_def login_page_def)
  have st: "response_status (BadStatus 401 body) = Some 401" by simp
  have i1: "new_events b (response_interceptor rt api (BadStatus 401 body) b)
              = [CookieRemove ?tk, CookieRemove ?ck, Navigate ?page]
          \<and> jar (response_interceptor rt api (BadStatus 401 body) b) ?tk = None
          \<and> jar (response_interceptor rt api (BadStatus 401 body) b) ?ck = None"
    using assms by (simp add: browser_unauthorized [OF assms st] tk ck lp)
  have i2: "status \<noteq> 401 \<longrightarrow> response_interceptor rt api (BadStatus status body) b = b"
    by (simp add: response_interceptor_def)
  have i3: "response_interceptor rt api TimedOut b = b" "response_interceptor rt api NetworkDown b = b"
    by (simp_all add: response_interceptor_def)
  have o1: "fallback_message c \<noteq> None \<and> outcome rt api server c b = Some (Inl (BadStatus 401 body)) \<longrightarrow>
            new_events b (snd (invoke rt api server c b))
              = [CookieGet ?tk, CookieRemove ?tk, CookieRemove ?ck, Navigate ?page]
            \<and> jar (snd (invoke rt api server c b)) ?tk = None
            \<and> jar (snd (invoke rt api server c b)) ?ck = None"
    using assms by (auto simp: rejected_page browser_getAuthToken browser_unauthorized tk ck lp)
  have o2: "fallback_message c \<noteq> None \<and> outcome rt api server c b = Some (Inl err)
            \<and> (\<forall>body'. err \<noteq> BadStatus 401 body') \<longrightarrow>
            snd (invoke rt api server c b) = b\<lparr>trace := trace b @ [CookieGet ?tk]\<rparr>"
    using assms by (auto simp: rejected_page browser_getAuthToken other_rejections not_unauthorized tk)
  have o3: "fallback_message c \<noteq> None \<and> outcome rt api server c b = Some out
            \<and> (\<forall>body'. out \<noteq> Inl (BadStatus 401 body')) \<longrightarrow>
            (\<forall>e\<in>set (new_events b (snd (invoke rt api server c b))).
               (\<forall>name. e \<noteq> CookieRemove name) \<and> (\<forall>href. e \<noteq> Navigate href))"
  proof (intro impI, elim conjE)
    assume f: "fallback_message c \<noteq> None" and o: "outcome rt api server c b = Some out"
      and n: "\<forall>body'. out \<noteq> Inl (BadStatus 401 body')"
    from f obtain fallback where fb: "fallback_message c = Some fallback" by auto
    show "\<forall>e\<in>set (new_events b (snd (invoke rt api server c b))).
            (\<forall>name. e \<noteq> CookieRemove name) \<and> (\<forall>href. e \<noteq> Navigate href)"
    proof (cases out)
      case (Inl e)
      with n have "\<forall>body'. e \<noteq> BadStatus 401 body'" by auto
      then have "response_status e \<noteq> Some 401" by (rule not_unauthorized)
      then show ?thesis
        using assms o Inl rejected_page [OF fb, of rt api server b e]
        by (simp add: other_rejections browser_getAuthToken)
    next
      case (Inr data)
      with fulfilled_page_events [OF assms fb, of api server b data] o
      obtain evs where t: "trace (snd (invoke rt api server c b)) = trace b @ evs"
        and e: "\<forall>e\<in>set evs. (\<forall>name. e \<noteq> CookieRemove name) \<and> (\<forall>href. e \<noteq> Navigate href)" by auto
      show ?thesis using t e by simp
    qed
  qed
  have l1: "outcome rt api server Logout b = Some (Inl (BadStatus 401 body)) \<longrightarrow>
            new_events b (snd (invoke rt api server Logout b))
              = [CookieGet ?tk, CookieRemove ?tk, CookieRemove ?ck, Navigate ?page,
                 CookieRemove ?tk, CookieRemove ?ck]"
    using assms
    by (auto simp: logout_page browser_getAuthToken browser_unauthorized browser_clearAuthData tk ck lp)
  have l2: "outcome rt api server Logout b = Some out
            \<and> (\<forall>body'. out \<noteq> Inl (BadStatus 401 body')) \<longrightarrow>
            new_events b (snd (invoke rt api server Logout b))
              = [CookieGet ?tk, CookieRemove ?tk, CookieRemove ?ck]"
  proof (cases out)
    case (Inl e)
    show ?thesis
    proof (intro impI, elim conjE)
      assume o: "outcome rt api server Logout b = Some out"
        and n: "\<forall>body'. out \<noteq> Inl (BadStatus 401 body')"
      from n Inl have "\<forall>body'. e \<noteq> BadStatus 401 body'" by auto
      then have "response_status e \<noteq> Some 401" by (rule not_unauthorized)
      then show "new_events b (snd (invoke rt api server Logout b))
              = [CookieGet ?tk, CookieRemove ?tk, CookieRemove ?ck]"
        using assms o Inl
        by (simp add: logout_page browser_getAuthToken other_rejections browser_clearAuthData tk ck)
    qed
  next
    case (Inr data)
    then show ?thesis
      using assms by (auto simp: logout_page browser_getAuthToken browser_clearAuthData tk ck)
  qed
  from i1 i2 i3 o1 o2 o3 l1 l2 show ?thesis by blast
qed

theorem unauthorized_response_witness:
  "has_window in_browser
   \<and> fallback_message GetProfile \<noteq> None
   \<and> outcome in_browser (createApiClient in_browser ''utility1'') (answering 401 JNull) GetProfile
        (session_page ''utility1'') = Some (Inl (BadStatus 401 JNull))
   \<and> new_events (session_page ''utility1'')
        (snd (invoke in_browser (createApiClient in_browser ''utility1'') (answering 401 JNull) GetProfile
               (session_page ''utility1'')))
      = [CookieGet ''accesswash_token_utility1'', CookieRemove ''accesswash_token_utility1'',
         CookieRemove ''accesswash_customer_utility1'', Navigate ''/utility1/portal/auth/login'']
   \<and> outcome in_browser (createApiClient in_browser ''utility1'') (answering 500 JNull) GetProfile
        (session_page ''utility1'') = Some (Inl (BadStatus 500 JNull))
   \<and> snd (invoke in_browser (createApiClient in_browser ''utility1'') (answering 500 JNull) GetProfile
            (session_page ''utility1''))
      = (session_page ''utility1'')\<lparr>trace := [CookieGet ''accesswash_token_utility1'']\<rparr>
   \<and> outcome in_browser (createApiClient in_browser ''utility1'') stalled GetProfile
        (session_page ''utility1'') = Some (Inl TimedOut)
   \<and> snd (invoke in_browser (createApiClient in_browser ''utility1'') stalled GetProfile
            (session_page ''utility1''))
      = (session_page ''utility1'')\<lparr>trace := [CookieGet ''accesswash_token_utility1'']\<rparr>"
proof -
  let ?api = "createApiClient in_browser ''utility1''"
  let ?b = "session_page ''utility1''"
  have w: "has_window in_browser" by (simp add: in_browser_def)
  have f: "fallback_message GetProfile \<noteq> None" by simp
  have o1: "outcome in_browser ?api (answering 401 JNull) GetProfile ?b = Some (Inl (BadStatus 401 JNull))"
    by (simp add: outcome_def sent_request_def axios_send_def answering_def createApiClient_def)
  have o2: "outcome in_browser ?api (answering 500 JNull) GetProfile ?b = Some (Inl (BadStatus 500 JNull))"
    by (simp add: outcome_def sent_request_def axios_send_def answering_def createApiClient_def)
  have o3: "outcome in_browser ?api stalled GetProfile ?b = Some (Inl TimedOut)"
    by (simp add: outcome_def sent_request_def axios_send_def stalled_def createApiClient_def)
  have t: "trace ?b = []" by (simp add: session_page_def)
  have n2: "\<forall>body'. BadStatus 500 JNull \<noteq> BadStatus 401 body'" by simp
  have n3: "\<forall>body'. TimedOut \<noteq> BadStatus 401 body'" by simp
  show ?thesis
    using unauthorized_response [OF w, where api = ?api and b = ?b and c = GetProfile
            and server = "answering 401 JNull" and body = JNull]
          unauthorized_response [OF w, where api = ?api and b = ?b and c = GetProfile
            and server = "answering 500 JNull" and err = "BadStatus 500 JNull"]
          unauthorized_response [OF w, where api = ?api and b = ?b and c = GetProfile
            and server = stalled and err = TimedOut]
          w f o1 o2 o3 t n2 n3
    by simp
qed

section \<open>updateProfile and the cached customer\<close>

lemma updateProfile_outcome:
  "outcome rt api server (UpdateProfile d) b = Some out \<Longrightarrow>
   updateProfile rt api server d b =
     (case out of
        Inl err \<Rightarrow> (Inl (normalized (Transport err) ''Failed to update profile''),
                    response_interceptor rt api err (snd (getAuthToken rt api b)))
      | Inr data \<Rightarrow>
          (case get_prop data ''success'' of
             None \<Rightarrow> (Inl (Error ''Failed to update profile''), snd (getAuthToken rt api b))
           | Some success \<Rightarrow>
               if truthy success then
                 (Inr data, Cookies_set rt (customer_key (tenant api))
                              (stringified rt (opt_prop data ''data'')) (session_attributes rt)
                              (snd (getAuthToken rt api b)))
               else (Inr data, snd (getAuthToken rt api b))))"
  by (auto simp: updateProfile_def outcome_def sent_request_def client_request_outcome caught_def
                 normalized_def
           split: sum.splits option.splits)

lemma outcome_UpdateProfile: "\<exists>out. outcome rt api server (UpdateProfile d) b = Some out"
  by (simp add: outcome_def sent_request_def)

text \<open>
  C8, as the code has it. For every tenant and every prior state of the cookies: in a
  browser, when updateProfile returns a response whose \<^verbatim>\<open>success\<close> is truthy, the customer
  cookie holds the serialization of the returned \<^verbatim>\<open>data\<close>, and getCurrentCustomer then
  returns what that text parses to. When updateProfile returns a response whose
  \<^verbatim>\<open>success\<close> is falsy, or throws after anything but a 401 response, every cookie is what
  it was before. When the backend answers 401, updateProfile throws a normalized error and
  the response interceptor has removed the customer cookie and the token cookie.
\<close>

theorem updateProfile_snapshot:
  "(has_window rt \<and> updateProfile rt api server d b = (Inr response, b')
      \<and> truthy (opt_prop response ''success'') \<longrightarrow>
      map_option cvalue (jar b' (customer_key (tenant api)))
        = Some (stringified rt (opt_prop response ''data''))
      \<and> (\<forall>v. stringified rt (opt_prop response ''data'') \<noteq> []
              \<and> JSON_parse rt (stringified rt (opt_prop response ''data'')) = Some v \<longrightarrow>
              fst (getCurrentCustomer rt api b') = v))
   \<and> (updateProfile rt api server d b = (Inr response, b')
        \<and> \<not> truthy (opt_prop response ''success'') \<longrightarrow> jar b' = jar b)
   \<and> (updateProfile rt api server d b = (Inl e, b')
        \<and> (\<forall>err. outcome rt api server (UpdateProfile d) b = Some (Inl err) \<longrightarrow>
                   response_status err \<noteq> Some 401) \<longrightarrow> jar b' = jar b)
   \<and> (has_window rt \<and> outcome rt api server (UpdateProfile d) b = Some (Inl err)
        \<and> response_status err = Some 401 \<longrightarrow>
        (\<exists>m. fst (updateProfile rt api server d b) = Inl (Error m))
        \<and> jar (snd (updateProfile rt api server d b)) (customer_key (tenant api)) = None
        \<and> jar (snd (updateProfile rt api server d b)) (token_key (tenant api)) = None)"
proof -
  obtain out where o: "outcome rt api server (UpdateProfile d) b = Some out"
    using outcome_UpdateProfile by blast
  note u = updateProfile_outcome [OF o]
  have a: "has_window rt \<and> updateProfile rt api server d b = (Inr response, b')
      \<and> truthy (opt_prop response ''success'') \<longrightarrow>
      map_option cvalue (jar b' (customer_key (tenant api)))
        = Some (stringified rt (opt_prop response ''data''))
      \<and> (\<forall>v. stringified rt (opt_prop response ''data'') \<noteq> []
              \<and> JSON_parse rt (stringified rt (opt_prop response ''data'')) = Some v \<longrightarrow>
              fst (getCurrentCustomer rt api b') = v)"
    unfolding u
    by (auto simp: Cookies_set_def getCurrentCustomer_value opt_prop_def
             split: sum.splits option.splits if_splits)
  have b: "updateProfile rt api server d b = (Inr response, b')
        \<and> \<not> truthy (opt_prop response ''success'') \<longrightarrow> jar b' = jar b"
    unfolding u
    by (auto simp: opt_prop_def split: sum.splits option.splits if_splits)
  have c: "updateProfile rt api server d b = (Inl e, b')
        \<and> (\<forall>err. outcome rt api server (UpdateProfile d) b = Some (Inl err) \<longrightarrow>
                   response_status err \<noteq> Some 401) \<longrightarrow> jar b' = jar b"
    unfolding u using o
    by (auto simp: other_rejections split: sum.splits option.splits if_splits)
  have d: "has_window rt \<and> outcome rt api server (UpdateProfile d) b = Some (Inl err)
        \<and> response_status err = Some 401 \<longrightarrow>
        (\<exists>m. fst (updateProfile rt api server d b) = Inl (Error m))
        \<and> jar (snd (updateProfile rt api server d b)) (customer_key (tenant api)) = None
        \<and> jar (snd (updateProfile rt api server d b)) (token_key (tenant api)) = None"
    using o by (auto simp: u browser_unauthorized normalized_def)
  from a b c d show ?thesis by blast
qed

theorem updateProfile_snapshot_witness:
  "has_window in_browser
   \<and> fst (updateProfile in_browser (createApiClient in_browser ''acme'') (answering 200 profile_reply)
            (JObj [(''first_name'', JStr ''Asha'')]) (session_page ''acme'')) = Inr profile_reply
   \<and> truthy (opt_prop profile_reply ''success'')
   \<and> map_option cvalue
        (jar (snd (updateProfile in_browser (createApiClient in_browser ''acme'') (answering 200 profile_reply)
                    (JObj [(''first_name'', JStr ''Asha'')]) (session_page ''acme'')))
           (customer_key ''acme''))
      = Some (serialize updated_customer)"
proof -
  let ?api = "createApiClient in_browser ''acme''"
  let ?d = "JObj [(''first_name'', JStr ''Asha'')]"
  let ?r = "updateProfile in_browser ?api (answering 200 profile_reply) ?d (session_page ''acme'')"
  have w: "has_window in_browser" by (simp add: in_browser_def)
  have o: "outcome in_browser ?api (answering 200 profile_reply) (UpdateProfile ?d) (session_page ''acme'')
           = Some (Inr profile_reply)"
    by (simp add: outcome_def sent_request_def axios_send_def answering_def createApiClient_def)
  have t: "truthy (opt_prop profile_reply ''success'')"
    by (simp add: profile_reply_def opt_prop_def)
  have g: "get_prop profile_reply ''success'' = Some (JBool True)"
    by (simp add: profile_reply_def)
  have f: "fst ?r = Inr profile_reply"
    by (simp add: updateProfile_outcome [OF o] g)
  have h: "?r = (Inr profile_reply, snd ?r)" using f by (cases ?r) simp
  have s: "stringified in_browser (opt_prop profile_reply ''data'') = serialize updated_customer"
    by (simp add: stringified_def in_browser_def example_stringify_def profile_reply_def opt_prop_def
          updated_customer_def)
  show ?thesis
    using updateProfile_snapshot [of in_browser ?api "answering 200 profile_reply" ?d
            "session_page ''acme''" profile_reply "snd ?r"] w h t f s
    by simp
qed

text \<open>
  C8 as it is stated fails for a 401: updateProfile fails, and the customer that was
  cached before is gone.
\<close>

theorem updateProfile_unauthorized_counterexample:
  "map_option cvalue (jar (session_page ''acme'') (customer_key ''acme''))
     = Some (serialize example_customer)
   \<and> fst (updateProfile in_browser (createApiClient in_browser ''acme'') (answering 401 JNull)
            (JObj [(''first_name'', JStr ''Asha'')]) (session_page ''acme''))
       = Inl (Error ''Failed to update profile'')
   \<and> jar (snd (updateProfile in_browser (createApiClient in_browser ''acme'') (answering 401 JNull)
            (JObj [(''first_name'', JStr ''Asha'')]) (session_page ''acme''))) (customer_key ''acme'')
       = None"
proof -
  have w: "has_window in_browser" by (simp add: in_browser_def)
  have o: "outcome in_browser (createApiClient in_browser ''acme'') (answering 401 JNull)
             (UpdateProfile (JObj [(''first_name'', JStr ''Asha'')])) (session_page ''acme'')
           = Some (Inl (BadStatus 401 JNull))"
    by (simp add: outcome_def sent_request_def axios_send_def answering_def createApiClient_def)
  have u: "fst (updateProfile in_browser (createApiClient in_browser ''acme'') (answering 401 JNull)
            (JObj [(''first_name'', JStr ''Asha'')]) (session_page ''acme''))
       = Inl (Error ''Failed to update profile'')
   \<and> jar (snd (updateProfile in_browser (createApiClient in_browser ''acme'') (answering 401 JNull)
            (JObj [(''first_name'', JStr ''Asha'')]) (session_page ''acme''))) (customer_key ''acme'')
       = None"
    using w by (simp add: updateProfile_outcome [OF o] browser_unauthorized normalized_def opt_prop_def)
  have c: "map_option cvalue (jar (session_page ''acme'') (customer_key ''acme''))
     = Some (serialize example_customer)"
    by (simp add: session_page_def)
  from u c show ?thesis by blast
qed

section \<open>What login writes, for any reply\<close>

text \<open>
  For any backend: a reply without truthy tokens beside \<^verbatim>\<open>success\<close> leaves every cookie
  as it was; a reply with a truthy \<^verbatim>\<open>success\<close> and truthy tokens beside it stores the
  access token, converted to a string, and the serialization of the customer beside it.
\<close>

lemma persist_session_without_tokens:
  "persist_session rt api data b = (Inr data', b') \<Longrightarrow> \<not> truthy (opt_prop data ''tokens'') \<Longrightarrow>
   b' = b"
  by (auto simp: persist_session_def Let_def split: option.splits if_splits)

lemma login_without_tokens_writes_nothing:
  "login rt api server credentials b = (Inr data, b') \<Longrightarrow> \<not> truthy (opt_prop data ''tokens'') \<Longrightarrow>
   jar b' = jar b"
  by (auto simp: login_def caught_def persist_session_def Let_def
           split: prod.splits sum.splits option.splits if_splits
           dest: jar_client_request_fulfilled)

lemma login_persists_flat_customer:
  "has_window rt \<Longrightarrow> login rt api server credentials b = (Inr data, b') \<Longrightarrow>
   truthy (opt_prop data ''success'') \<Longrightarrow> truthy (opt_prop data ''tokens'') \<Longrightarrow>
   map_option cvalue (jar b' (customer_key (tenant api)))
     = Some (stringified rt (opt_prop data ''customer''))
   \<and> map_option cvalue (jar b' (token_key (tenant api)))
     = Some (to_string (opt_prop (opt_prop data ''tokens'') ''access_token''))"
  by (auto simp: login_def caught_def persist_session_def Let_def setAuthToken_def Cookies_set_def
                 opt_prop_def token_key_not_customer_key
           split: prod.splits sum.splits option.splits if_splits)

end
